theory Spec2Isabelle
  imports Main "HOL-Library.Sublist"
begin

section \<open>Provider resolution (mcp-server/src/core/utils/ai-client-utils.js)\<close>

subsection \<open>Environment lookup\<close>

text \<open>
  The resolver reads its configuration from two places: \<^verbatim>\<open>session?.env\<close> and
  \<^verbatim>\<open>process.env\<close>. Both are dictionaries from names to strings. The session, or its
  \<^verbatim>\<open>env\<close>, may be missing, so \<open>session_env\<close> is optional. Whether the dynamic
  \<^verbatim>\<open>import('openai')\<close> of \<^verbatim>\<open>getPerplexityClientForMCP\<close> succeeds is a fact of the
  installation, recorded in \<open>openai_importable\<close>.
\<close>

type_synonym env = "string \<rightharpoonup> string"

record mcp =
  session_env :: "env option"
  process_env :: env
  openai_importable :: bool

text \<open>
  A JavaScript string is falsy exactly when it is empty; \<open>truthy\<close> maps a missing or
  empty value to \<open>None\<close>. \<open>envVar c k\<close> is the expression
  \<^verbatim>\<open>session?.env?.K || process.env.K\<close>, read for its truthiness and, when truthy, its value:
  every use in the source is a condition, a negation, or the left side of another
  \<^verbatim>\<open>||\<close>.
\<close>

definition truthy :: "string option \<Rightarrow> string option" where
  "truthy v = (case v of None \<Rightarrow> None | Some s \<Rightarrow> if s = [] then None else Some s)"

definition envVar :: "mcp \<Rightarrow> string \<Rightarrow> string option" where
  "envVar c k =
     (case (case session_env c of None \<Rightarrow> None | Some e \<Rightarrow> truthy (e k)) of
        Some v \<Rightarrow> Some v
      | None \<Rightarrow> truthy (process_env c k))"

text \<open>\<^verbatim>\<open>String.prototype.toUpperCase\<close> on the ASCII letters; other bytes are left as they are.\<close>

definition toUpperCase_char :: "char \<Rightarrow> char" where
  "toUpperCase_char ch =
     (case map_of (zip ''abcdefghijklmnopqrstuvwxyz'' ''ABCDEFGHIJKLMNOPQRSTUVWXYZ'') ch of
        Some u \<Rightarrow> u
      | None \<Rightarrow> ch)"

definition toUpperCase :: "string \<Rightarrow> string" where
  "toUpperCase s = map toUpperCase_char s"

subsection \<open>Client factories\<close>

text \<open>
  A client handle remembers which SDK built it and the API key it was built with. Each
  factory throws (here: returns \<open>Inl\<close> with the message) when its key is missing; the
  Perplexity factory also throws when the \<^verbatim>\<open>openai\<close> package cannot be imported.
\<close>

datatype client = AnthropicClient string | GoogleClient string | PerplexityClient string

definition getAnthropicClientForMCP :: "mcp \<Rightarrow> string + client" where
  "getAnthropicClientForMCP c =
     (case envVar c ''ANTHROPIC_API_KEY'' of
        None \<Rightarrow> Inl ''ANTHROPIC_API_KEY not found in session environment or process.env''
      | Some apiKey \<Rightarrow> Inr (AnthropicClient apiKey))"

definition getGoogleClientForMCP :: "mcp \<Rightarrow> string + client" where
  "getGoogleClientForMCP c =
     (case envVar c ''GOOGLE_API_KEY'' of
        None \<Rightarrow> Inl ''GOOGLE_API_KEY not found in session environment or process.env''
      | Some apiKey \<Rightarrow> Inr (GoogleClient apiKey))"

definition getPerplexityClientForMCP :: "mcp \<Rightarrow> string + client" where
  "getPerplexityClientForMCP c =
     (case envVar c ''PERPLEXITY_API_KEY'' of
        None \<Rightarrow> Inl ''PERPLEXITY_API_KEY not found in session environment or process.env''
      | Some apiKey \<Rightarrow>
          if openai_importable c then Inr (PerplexityClient apiKey)
          else Inl ''Cannot find package openai'')"

subsection \<open>getBestAvailableAIModel\<close>

text \<open>
  The returned object literal has the keys \<^verbatim>\<open>type\<close>, \<^verbatim>\<open>client\<close> and, on most paths,
  \<^verbatim>\<open>modelName\<close>; no path adds any other key. A key that an object literal leaves out is
  \<open>None\<close>.
\<close>

record handle =
  type :: string
  client :: client
  modelName :: "string option"

record options =
  requiresResearch :: bool
  claudeOverloaded :: bool

text \<open>
  The resolver's visible effect besides its result is the sequence of client factories it
  calls. The model returns that sequence with the result: the first component of the pair
  lists the providers whose factory was invoked, in order; the second is the handle, or
  the message of the error thrown.
\<close>

datatype provider = Anthropic | Google | Perplexity

definition primaryProvider :: "mcp \<Rightarrow> string" where
  "primaryProvider c =
     (case envVar c ''AI_PROVIDER'' of
        None \<Rightarrow> ''ANTHROPIC''
      | Some p \<Rightarrow> toUpperCase p)"

definition geminiModel :: "mcp \<Rightarrow> string" where
  "geminiModel c =
     (case envVar c ''GEMINI_MODEL'' of Some m \<Rightarrow> m | None \<Rightarrow> ''gemini-2.5-pro-latest'')"

definition claudeModel :: "mcp \<Rightarrow> string \<Rightarrow> string" where
  "claudeModel c dflt = (case envVar c ''MODEL'' of Some m \<Rightarrow> m | None \<Rightarrow> dflt)"

definition perplexityModel :: "mcp \<Rightarrow> string" where
  "perplexityModel c =
     (case envVar c ''PERPLEXITY_MODEL'' of Some m \<Rightarrow> m | None \<Rightarrow> ''sonar-pro'')"

definition googleHandle :: "mcp \<Rightarrow> client \<Rightarrow> handle" where
  "googleHandle c cl = \<lparr>type = ''google'', client = cl, modelName = Some (geminiModel c)\<rparr>"

definition claudeHandle :: "mcp \<Rightarrow> string \<Rightarrow> client \<Rightarrow> handle" where
  "claudeHandle c dflt cl =
     \<lparr>type = ''claude'', client = cl, modelName = Some (claudeModel c dflt)\<rparr>"

text \<open>Lines 147 to 178: research requested, no Perplexity key.\<close>

definition researchFallback :: "mcp \<Rightarrow> provider list \<times> (string + handle)" where
  "researchFallback c =
     (if primaryProvider c = ''GOOGLE'' then
        (case getGoogleClientForMCP c of
           Inr cl \<Rightarrow> ([Google], Inr (googleHandle c cl))
         | Inl e \<Rightarrow> ([Google], Inl ''No AI models available for research''))
      else
        (case getAnthropicClientForMCP c of
           Inr cl \<Rightarrow> ([Anthropic], Inr (claudeHandle c ''claude-3-7-sonnet-20250219'' cl))
         | Inl e \<Rightarrow> ([Anthropic], Inl ''No AI models available for research'')))"

text \<open>Lines 231 to 245: the overloaded Claude as last resort.\<close>

definition overloadLastResort :: "mcp \<Rightarrow> provider list \<Rightarrow> provider list \<times> (string + handle)" where
  "overloadLastResort c tr =
     (case getAnthropicClientForMCP c of
        Inr cl \<Rightarrow> (tr @ [Anthropic], Inr (claudeHandle c ''claude-3-7-sonnet-2025-02-19'' cl))
      | Inl e \<Rightarrow>
          (tr @ [Anthropic],
           Inl ''No AI models available, Claude overloaded and fallbacks failed.''))"

text \<open>Lines 216 to 230: Perplexity as a generic completion source.\<close>

definition overloadPerplexity :: "mcp \<Rightarrow> provider list \<Rightarrow> provider list \<times> (string + handle)" where
  "overloadPerplexity c tr =
     (if envVar c ''PERPLEXITY_API_KEY'' \<noteq> None then
        (case getPerplexityClientForMCP c of
           Inr cl \<Rightarrow>
             (tr @ [Perplexity],
              Inr \<lparr>type = ''perplexity'', client = cl, modelName = Some (perplexityModel c)\<rparr>)
         | Inl e \<Rightarrow> overloadLastResort c (tr @ [Perplexity]))
      else overloadLastResort c tr)"

text \<open>Lines 195 to 215: the overload branch starts with Google.\<close>

definition overloadTier :: "mcp \<Rightarrow> provider list \<Rightarrow> provider list \<times> (string + handle)" where
  "overloadTier c tr =
     (if primaryProvider c = ''GOOGLE'' \<or> envVar c ''GOOGLE_API_KEY'' \<noteq> None then
        (case getGoogleClientForMCP c of
           Inr cl \<Rightarrow> (tr @ [Google], Inr (googleHandle c cl))
         | Inl e \<Rightarrow> overloadPerplexity c (tr @ [Google]))
      else overloadPerplexity c tr)"

text \<open>Lines 270 to 303: the primary provider failed; try the other family, then give up.\<close>

definition defaultFallback :: "mcp \<Rightarrow> provider list \<Rightarrow> provider list \<times> (string + handle)" where
  "defaultFallback c tr =
     (if primaryProvider c = ''GOOGLE'' \<and> envVar c ''ANTHROPIC_API_KEY'' \<noteq> None then
        (case getAnthropicClientForMCP c of
           Inr cl \<Rightarrow> (tr @ [Anthropic], Inr (claudeHandle c ''claude-3-7-sonnet-2025-02-19'' cl))
         | Inl e \<Rightarrow>
             (tr @ [Anthropic],
              Inl ''No primary AI models available. Please check your API keys and AI_PROVIDER setting.''))
      else if primaryProvider c = ''ANTHROPIC'' \<and> envVar c ''GOOGLE_API_KEY'' \<noteq> None then
        (case getGoogleClientForMCP c of
           Inr cl \<Rightarrow> (tr @ [Google], Inr (googleHandle c cl))
         | Inl e \<Rightarrow>
             (tr @ [Google],
              Inl ''No primary AI models available. Please check your API keys and AI_PROVIDER setting.''))
      else
        (tr, Inl ''No primary AI models available. Please check your API keys and AI_PROVIDER setting.''))"

text \<open>Lines 248 to 269: the configured primary provider.\<close>

definition defaultTier :: "mcp \<Rightarrow> provider list \<Rightarrow> provider list \<times> (string + handle)" where
  "defaultTier c tr =
     (if primaryProvider c = ''GOOGLE'' then
        (case getGoogleClientForMCP c of
           Inr cl \<Rightarrow> (tr @ [Google], Inr (googleHandle c cl))
         | Inl e \<Rightarrow> defaultFallback c (tr @ [Google]))
      else
        (case getAnthropicClientForMCP c of
           Inr cl \<Rightarrow> (tr @ [Anthropic], Inr (claudeHandle c ''claude-3-7-sonnet-2025-02-19'' cl))
         | Inl e \<Rightarrow> defaultFallback c (tr @ [Anthropic])))"

definition afterResearch :: "mcp \<Rightarrow> options \<Rightarrow> provider list \<Rightarrow> provider list \<times> (string + handle)" where
  "afterResearch c opts tr =
     (if claudeOverloaded opts then overloadTier c tr else defaultTier c tr)"

definition getBestAvailableAIModel :: "mcp \<Rightarrow> options \<Rightarrow> provider list \<times> (string + handle)" where
  "getBestAvailableAIModel c opts =
     (if requiresResearch opts \<and> envVar c ''PERPLEXITY_API_KEY'' = None then researchFallback c
      else if requiresResearch opts \<and> envVar c ''PERPLEXITY_API_KEY'' \<noteq> None then
        (case getPerplexityClientForMCP c of
           Inr cl \<Rightarrow> ([Perplexity], Inr \<lparr>type = ''perplexity'', client = cl, modelName = None\<rparr>)
         | Inl e \<Rightarrow> afterResearch c opts [Perplexity])
      else afterResearch c opts [])"

section \<open>Task expansion (expand-task.js)\<close>

subsection \<open>Arguments\<close>

text \<open>
  The arguments arrive as JavaScript values. \<^verbatim>\<open>id\<close> and \<^verbatim>\<open>num\<close> are documented as
  number or string and go through \<^verbatim>\<open>parseInt(_, 10)\<close>; \<^verbatim>\<open>research\<close> and
  \<^verbatim>\<open>force\<close> are compared with \<^verbatim>\<open>=== true\<close>. Numbers are the integers (no fractions).
  A JavaScript number is a double-precision float: an integer of magnitude below \<open>2 ^ 53\<close>
  is held exactly, is printed in plain decimal, and is its own \<^verbatim>\<open>parseInt\<close>. What the
  engine makes of a larger one (rounding to the nearest float, printing with an exponent)
  is floating-point arithmetic, which the model leaves unspecified: \<open>toNumber\<close> and
  \<open>numberToString\<close> say nothing about such a value. A string is a sequence of code
  units below 256.
\<close>

datatype js_value = JUndefined | JBoolean bool | JNumber int | JString string

fun truthy_js :: "js_value \<Rightarrow> bool" where
  "truthy_js JUndefined = False"
| "truthy_js (JBoolean b) = b"
| "truthy_js (JNumber n) = (n \<noteq> 0)"
| "truthy_js (JString s) = (s \<noteq> [])"

definition safeInteger :: "int \<Rightarrow> bool" where
  "safeInteger i = (\<bar>i\<bar> < 2 ^ 53)"

definition toNumber :: "int \<Rightarrow> int" where
  \<comment> \<open>the number that stands for a mathematical integer\<close>
  "toNumber i = (if safeInteger i then i else undefined i)"

definition isSpace :: "char \<Rightarrow> bool" where
  \<comment> \<open>the white space of \<^verbatim>\<open>parseInt\<close> among the code units below 256\<close>
  "isSpace ch =
     (ch \<in> set [CHR '' '', CHR 0x09, CHR 0x0A, CHR 0x0B, CHR 0x0C, CHR 0x0D, CHR 0xA0])"

definition digitValue :: "char \<Rightarrow> int option" where
  "digitValue ch = map_of (zip ''0123456789'' [0, 1, 2, 3, 4, 5, 6, 7, 8, 9]) ch"

definition digitsValue :: "string \<Rightarrow> int" where
  "digitsValue ds = foldl (\<lambda>acc ch. 10 * acc + (case digitValue ch of Some d \<Rightarrow> d | None \<Rightarrow> 0)) 0 ds"

text \<open>
  \<^verbatim>\<open>parseInt(s, 10)\<close> on a string: leading white space is skipped, one sign is read, then
  the longest run of decimal digits; with no digit the result is \<^verbatim>\<open>NaN\<close>, here \<open>None\<close>.
\<close>

definition parseIntString :: "string \<Rightarrow> int option" where
  "parseIntString s =
     (let s1 = dropWhile isSpace s;
          neg = (case s1 of ch # r \<Rightarrow> ch = CHR ''-'' | [] \<Rightarrow> False);
          s2 = (case s1 of ch # r \<Rightarrow> if ch = CHR ''-'' \<or> ch = CHR ''+'' then r else s1 | [] \<Rightarrow> s1);
          ds = takeWhile (\<lambda>ch. digitValue ch \<noteq> None) s2
      in if ds = [] then None
         else Some (toNumber (if neg then - digitsValue ds else digitsValue ds)))"

fun parseInt :: "js_value \<Rightarrow> int option" where
  "parseInt (JNumber n) = Some (toNumber n)"
| "parseInt (JString s) = parseIntString s"
| "parseInt JUndefined = None"
| "parseInt (JBoolean b) = None"

record args =
  tasksJsonPath :: "string option"
  id_arg :: js_value
  num :: js_value
  research :: js_value
  prompt :: "string option"
  force :: js_value

text \<open>
  \<^verbatim>\<open>const taskId = id ? parseInt(id, 10) : null\<close>, followed by the test \<^verbatim>\<open>!taskId\<close>:
  \<^verbatim>\<open>null\<close>, \<^verbatim>\<open>NaN\<close> and \<open>0\<close> are all falsy, so \<open>taskIdOf\<close> is \<open>None\<close> for the three.
\<close>

definition taskIdOf :: "js_value \<Rightarrow> int option" where
  "taskIdOf v =
     (if truthy_js v then (case parseInt v of Some n \<Rightarrow> if n = 0 then None else Some n | None \<Rightarrow> None)
      else None)"

text \<open>
  \<^verbatim>\<open>const numSubtasks = num ? parseInt(num, 10) : undefined\<close>. Both \<^verbatim>\<open>undefined\<close> and
  \<^verbatim>\<open>NaN\<close> are \<open>None\<close>: the only later use that the result depends on is
  \<^verbatim>\<open>numSubtasks || 5\<close>, where both are falsy.
\<close>

definition numSubtasksOf :: "js_value \<Rightarrow> int option" where
  "numSubtasksOf v = (if truthy_js v then parseInt v else None)"

definition subtaskCountOf :: "int option \<Rightarrow> int" where
  "subtaskCountOf numSubtasks = (case numSubtasks of Some n \<Rightarrow> if n = 0 then 5 else n | None \<Rightarrow> 5)"

definition additionalContextOf :: "string option \<Rightarrow> string" where
  "additionalContextOf p = (case p of Some s \<Rightarrow> s | None \<Rightarrow> [])"

subsection \<open>The store and the file system\<close>

record subtask =
  st_id :: int
  st_title :: string
  st_description :: string
  dependencies :: "int list"
  st_details :: string

record task =
  task_id :: int
  title :: string
  description :: string
  details :: "string option"
  status :: string
  subtasks :: "subtask list option"

record tasks_data =
  tasks :: "task list option"

text \<open>
  A file either holds a JSON document of the store's shape or something that does not
  parse. The model keeps the document itself, not its bytes.
\<close>

datatype file_content = Unparsable string | Document tasks_data

type_synonym filesystem = "string \<rightharpoonup> file_content"

definition readJSON :: "filesystem \<Rightarrow> string \<Rightarrow> tasks_data option" where
  \<comment> \<open>Modelled from the spec: \<^verbatim>\<open>readJSON\<close> of scripts/modules/utils.js is not among the
      sources. Reading fails (\<^verbatim>\<open>null\<close>) when the content is absent or is no document.\<close>
  "readJSON fs p = (case fs p of Some (Document d) \<Rightarrow> Some d | Some (Unparsable s) \<Rightarrow> None | None \<Rightarrow> None)"

definition writeJSON :: "string \<Rightarrow> tasks_data \<Rightarrow> filesystem \<Rightarrow> filesystem" where
  \<comment> \<open>Modelled from the spec: \<^verbatim>\<open>writeJSON\<close> of scripts/modules/utils.js is not among the
      sources. Writing replaces the content of the file at the path.\<close>
  "writeJSON p d fs = fs(p \<mapsto> Document d)"

text \<open>\<^verbatim>\<open>fs.copyFileSync\<close> and \<^verbatim>\<open>fs.unlinkSync\<close> throw when the source file is missing.\<close>

definition copyFileSync :: "string \<Rightarrow> string \<Rightarrow> filesystem \<Rightarrow> string + filesystem" where
  "copyFileSync src dst fs =
     (case fs src of
        None \<Rightarrow> Inl ''ENOENT: no such file or directory, copyfile''
      | Some f \<Rightarrow> Inr (fs(dst \<mapsto> f)))"

definition unlinkSync :: "string \<Rightarrow> filesystem \<Rightarrow> string + filesystem" where
  "unlinkSync p fs =
     (case fs p of
        None \<Rightarrow> Inl ''ENOENT: no such file or directory, unlink''
      | Some f \<Rightarrow> Inr (fs(p := None)))"

text \<open>
  What lies outside the function: the provider call and the response parser of
  scripts/modules/ai-services.js, and Node's
  \<^verbatim>\<open>path.join(path.dirname(tasksPath), 'tasks.json.bak')\<close>. The first two may throw
  (\<open>Inl\<close> with the message); the parser may also return \<^verbatim>\<open>null\<close>.
\<close>

record services =
  callAIProvider :: "string \<Rightarrow> bool \<Rightarrow> string + string"
  parseSubtasksFromText :: "string \<Rightarrow> int \<Rightarrow> int \<Rightarrow> int \<Rightarrow> string + subtask list option"
  backupPathOf :: "string \<Rightarrow> string"

text \<open>The world the function acts on: the files, and the prompts sent to the provider.\<close>

record world =
  files :: filesystem
  aiCalls :: "(string \<times> bool) list"

subsection \<open>The result\<close>

text \<open>
  The \<^verbatim>\<open>data\<close> object of a success has different keys on the two success paths; a key that
  a path leaves out is \<open>None\<close>. \<^verbatim>\<open>fromCache\<close> is \<^verbatim>\<open>false\<close> in every result and is
  left out.
\<close>

record expand_data =
  message :: string
  task :: task
  newSubtasks :: "subtask list option"
  subtasksAdded :: nat
  totalSubtasks :: "nat option"
  hasExistingSubtasks :: "bool option"

record expand_error =
  code :: string
  error_message :: string

datatype result = Success expand_data | Failure expand_error

definition coreError :: "string \<Rightarrow> result" where
  \<comment> \<open>the two \<^verbatim>\<open>catch\<close> blocks: \<^verbatim>\<open>error.message || 'Failed to expand task'\<close>\<close>
  "coreError m =
     Failure \<lparr>code = ''CORE_FUNCTION_ERROR'',
              error_message = (if m = [] then ''Failed to expand task'' else m)\<rparr>"

subsection \<open>Rendering numbers and the prompt\<close>

text \<open>
  A number inside a template literal is rendered in decimal, with a minus sign when it is
  negative; the rendering of an integer that is not safe is left unspecified.
\<close>

definition digitChar :: "nat \<Rightarrow> char" where
  "digitChar d = ''0123456789'' ! d"

fun decimalDigits :: "nat \<Rightarrow> string" where
  "decimalDigits n =
     (if 10 \<le> n then decimalDigits (n div 10) @ [digitChar (n mod 10)] else [digitChar n])"

definition numberToString :: "int \<Rightarrow> string" where
  "numberToString i =
     (if safeInteger i
      then (if 0 \<le> i then decimalDigits (nat i) else CHR ''-'' # decimalDigits (nat (- i)))
      else undefined i)"

declare decimalDigits.simps [simp del]

definition quoted :: "string \<Rightarrow> string" where
  "quoted s = [CHR 0x22] @ s @ [CHR 0x22]"

definition nextSubtaskIdOf :: "task \<Rightarrow> int" where
  \<comment> \<open>\<^verbatim>\<open>(task.subtasks?.length || 0) + 1\<close>\<close>
  "nextSubtaskIdOf t = int (case subtasks t of None \<Rightarrow> 0 | Some ss \<Rightarrow> length ss) + 1"

text \<open>
  The template literal of line 203, cut at its interpolations; three phrases that the
  properties below speak of are set in parentheses.
\<close>

definition systemPrompt :: "int \<Rightarrow> int \<Rightarrow> string" where
  "systemPrompt subtaskCount nextSubtaskId =
     ''You are an AI assistant helping with task breakdown. Break down the given task into ''
     @ numberToString subtaskCount
     @ '' specific subtasks.\<newline>\<newline>Subtasks should:\<newline>1. Be specific and actionable implementation steps\<newline>2. Follow a logical sequence\<newline>3. Each handle a distinct part of the parent task\<newline>4. Include clear guidance on implementation approach\<newline>5. Have appropriate dependency chains between subtasks (use ''
     @ (''numerical IDs starting from '' @ numberToString nextSubtaskId)
     @ '')\<newline>6. Collectively cover all aspects of the parent task\<newline>\<newline>''
     @ (''Return exactly '' @ numberToString subtaskCount @ '' subtasks'')
     @ '' with the following JSON structure:\<newline>[\<newline>  {\<newline>    ''
     @ (quoted ''id'' @ '': '' @ numberToString nextSubtaskId) @ '',\<newline>    ''
     @ quoted ''title'' @ '': '' @ quoted ''First subtask title'' @ '',\<newline>    ''
     @ quoted ''description'' @ '': '' @ quoted ''Detailed description'' @ '',\<newline>    ''
     @ quoted ''dependencies'' @ '': [],\<newline>    ''
     @ quoted ''details'' @ '': '' @ quoted ''Implementation details''
     @ ''\<newline>  },\<newline>  ...\<newline>]\<newline>\<newline>IMPORTANT: Respond ONLY with the JSON array, nothing else.''"

definition contextPrompt :: "string \<Rightarrow> string" where
  "contextPrompt additionalContext =
     (if additionalContext \<noteq> [] then ''\<newline>\<newline>Additional context: '' @ additionalContext else [])"

definition userPrompt :: "task \<Rightarrow> int \<Rightarrow> string \<Rightarrow> string" where
  "userPrompt t subtaskCount additionalContext =
     ''Break down this task into '' @ numberToString subtaskCount
     @ '' subtasks:\<newline>Task ID: '' @ numberToString (task_id t)
     @ ''\<newline>Title: '' @ title t
     @ ''\<newline>Description: '' @ description t
     @ ''\<newline>Details: '' @ (case truthy (details t) of Some d \<Rightarrow> d | None \<Rightarrow> ''N/A'')
     @ contextPrompt additionalContext"

definition fullPrompt :: "task \<Rightarrow> int \<Rightarrow> string \<Rightarrow> string" where
  "fullPrompt t subtaskCount additionalContext =
     systemPrompt subtaskCount (nextSubtaskIdOf t) @ ''\<newline>\<newline>''
     @ userPrompt t subtaskCount additionalContext"

subsection \<open>expandTaskDirect\<close>

fun findIndex :: "('a \<Rightarrow> bool) \<Rightarrow> 'a list \<Rightarrow> nat option" where
  "findIndex P [] = None"
| "findIndex P (x # xs) = (if P x then Some 0 else map_option Suc (findIndex P xs))"

definition hasExisting :: "task \<Rightarrow> bool" where
  \<comment> \<open>\<^verbatim>\<open>task.subtasks && task.subtasks.length > 0\<close>, read for its truthiness\<close>
  "hasExisting t = (case subtasks t of None \<Rightarrow> False | Some ss \<Rightarrow> 0 < length ss)"

definition failure :: "string \<Rightarrow> string \<Rightarrow> result" where
  "failure cd msg = Failure \<lparr>code = cd, error_message = msg\<rparr>"

text \<open>
  Lines 249 to 278. \<open>ts\<close> is \<^verbatim>\<open>data.tasks\<close> as it stands after the preparing step. The
  source looks the task up again by index and appends the new subtasks to that element.
\<close>

definition commitPhase ::
  "string \<Rightarrow> int \<Rightarrow> string \<Rightarrow> tasks_data \<Rightarrow> task list \<Rightarrow> task \<Rightarrow> subtask list \<Rightarrow> world
     \<Rightarrow> result \<times> world" where
  "commitPhase tasksPath taskId backupPath data ts originalTask newSubs w =
     (case findIndex (\<lambda>t. task_id t = taskId) ts of
        None \<Rightarrow> (coreError ''Task disappeared unexpectedly!'', w)
      | Some taskIndex \<Rightarrow>
          (let merged = (case subtasks (ts ! taskIndex) of None \<Rightarrow> [] | Some ss \<Rightarrow> ss) @ newSubs;
               ts' = ts[taskIndex := (ts ! taskIndex)\<lparr>subtasks := Some merged\<rparr>];
               added = length newSubs;
               w1 = w\<lparr>files := writeJSON tasksPath (data\<lparr>tasks := Some ts'\<rparr>) (files w)\<rparr>
           in case unlinkSync backupPath (files w1) of
                Inl m \<Rightarrow> (coreError m, w1)
              | Inr fs \<Rightarrow>
                  (Success
                     \<lparr>message = ''Task '' @ numberToString taskId @ '' expanded successfully with ''
                          @ decimalDigits added @ '' subtasks.'',
                      task = originalTask,
                      newSubtasks = Some newSubs,
                      subtasksAdded = added,
                      totalSubtasks = Some (length merged),
                      hasExistingSubtasks = None\<rparr>,
                   w1\<lparr>files := fs\<rparr>)))"

text \<open>
  Lines 185 to 247 and the inner \<^verbatim>\<open>catch\<close>. \<open>t\<close> is the task object after the
  preparing step. The prompt is recorded in \<open>aiCalls\<close> before the provider answers.
\<close>

definition generatePhase ::
  "services \<Rightarrow> args \<Rightarrow> string \<Rightarrow> int \<Rightarrow> string \<Rightarrow> tasks_data \<Rightarrow> task list \<Rightarrow> task \<Rightarrow> task \<Rightarrow> world
     \<Rightarrow> result \<times> world" where
  "generatePhase sv a tasksPath taskId backupPath data ts t originalTask w =
     (let nextSubtaskId = nextSubtaskIdOf t;
          subtaskCount = subtaskCountOf (numSubtasksOf (num a));
          useResearch = (research a = JBoolean True);
          p = fullPrompt t subtaskCount (additionalContextOf (prompt a));
          w1 = w\<lparr>aiCalls := aiCalls w @ [(p, useResearch)]\<rparr>
      in case callAIProvider sv p useResearch of
           Inl m \<Rightarrow> (coreError (''AI Error: '' @ m), w1)
         | Inr generatedSubtasksText \<Rightarrow>
             (case parseSubtasksFromText sv generatedSubtasksText nextSubtaskId subtaskCount
                     (task_id t) of
                Inl m \<Rightarrow> (coreError m, w1)
              | Inr None \<Rightarrow> (coreError ''AI did not return valid subtasks.'', w1)
              | Inr (Some newSubs) \<Rightarrow>
                  if newSubs = [] then (coreError ''AI did not return valid subtasks.'', w1)
                  else commitPhase tasksPath taskId backupPath data ts originalTask newSubs w1))"

text \<open>
  Lines 158 to 182. \<^verbatim>\<open>task\<close> is the very object that sits in \<^verbatim>\<open>data.tasks\<close>, at the
  first index whose id matches, so assigning to \<^verbatim>\<open>task.subtasks\<close> changes \<^verbatim>\<open>data\<close>: the
  model updates the list at that index. A throw of \<^verbatim>\<open>copyFileSync\<close> is caught by the outer
  \<^verbatim>\<open>catch\<close>.
\<close>

definition preparePhase ::
  "services \<Rightarrow> args \<Rightarrow> string \<Rightarrow> int \<Rightarrow> tasks_data \<Rightarrow> task list \<Rightarrow> task \<Rightarrow> world
     \<Rightarrow> result \<times> world" where
  "preparePhase sv a tasksPath taskId data ts t w =
     (let forceFlag = (force a = JBoolean True);
          t1 = (if hasExisting t \<and> forceFlag then t\<lparr>subtasks := Some []\<rparr> else t);
          originalTask = t1;
          backupPath = backupPathOf sv tasksPath
      in case copyFileSync tasksPath backupPath (files w) of
           Inl m \<Rightarrow> (coreError m, w)
         | Inr fs1 \<Rightarrow>
             (let t2 = (if subtasks t1 = None then t1\<lparr>subtasks := Some []\<rparr> else t1);
                  ts2 = (case findIndex (\<lambda>x. task_id x = taskId) ts of
                           Some i \<Rightarrow> ts[i := t2]
                         | None \<Rightarrow> ts);
                  data2 = data\<lparr>tasks := Some ts2\<rparr>;
                  w2 = w\<lparr>files := writeJSON tasksPath data2 fs1\<rparr>
              in generatePhase sv a tasksPath taskId backupPath data2 ts2 t2 originalTask w2))"

text \<open>
  Lines 91 to 156. In the message of \<^verbatim>\<open>INVALID_TASKS_FILE\<close>,
  \<^verbatim>\<open>JSON.stringify(data)\<close> is \<^verbatim>\<open>null\<close> for a failed read and the empty object for a
  document without \<^verbatim>\<open>tasks\<close>.
\<close>

definition expandLoaded :: "services \<Rightarrow> args \<Rightarrow> string \<Rightarrow> int \<Rightarrow> world \<Rightarrow> result \<times> world" where
  "expandLoaded sv a tasksPath taskId w =
     (case readJSON (files w) tasksPath of
        None \<Rightarrow>
          (failure ''INVALID_TASKS_FILE''
             (''No valid tasks found in '' @ tasksPath @ ''. readJSON returned: null''), w)
      | Some data \<Rightarrow>
          (case tasks data of
             None \<Rightarrow>
               (failure ''INVALID_TASKS_FILE''
                  (''No valid tasks found in '' @ tasksPath @ ''. readJSON returned: {}''), w)
           | Some ts \<Rightarrow>
               (case find (\<lambda>t. task_id t = taskId) ts of
                  None \<Rightarrow>
                    (failure ''TASK_NOT_FOUND''
                       (''Task with ID '' @ numberToString taskId @ '' not found''), w)
                | Some t \<Rightarrow>
                    if status t = ''done'' \<or> status t = ''completed'' then
                      (failure ''TASK_COMPLETED''
                         (''Task '' @ numberToString taskId @ '' is already marked as '' @ status t
                          @ '' and cannot be expanded''), w)
                    else if hasExisting t \<and> \<not> (force a = JBoolean True) then
                      (Success
                         \<lparr>message = ''Task '' @ numberToString taskId
                              @ '' already has subtasks. Expansion skipped.'',
                          task = t,
                          newSubtasks = None,
                          subtasksAdded = 0,
                          totalSubtasks = None,
                          hasExistingSubtasks = Some True\<rparr>, w)
                    else preparePhase sv a tasksPath taskId data ts t w)))"

text \<open>Lines 33 to 84: the two argument checks come before any file is touched.\<close>

definition expandTaskDirect :: "services \<Rightarrow> args \<Rightarrow> world \<Rightarrow> result \<times> world" where
  "expandTaskDirect sv a w =
     (case truthy (tasksJsonPath a) of
        None \<Rightarrow> (failure ''MISSING_ARGUMENT'' ''tasksJsonPath is required'', w)
      | Some tasksPath \<Rightarrow>
          (case taskIdOf (id_arg a) of
             None \<Rightarrow> (failure ''INPUT_VALIDATION_ERROR'' ''Task ID is required'', w)
           | Some taskId \<Rightarrow> expandLoaded sv a tasksPath taskId w))"

section \<open>The specification's vocabulary\<close>

subsection \<open>The fallback policy as a walk over a list of tiers\<close>

text \<open>
  The specification describes resolution as a policy that walks tiers in order and binds
  the first provider that can be bound. The definitions of this subsection say that in
  HOL, independently of the code above; the theorems compare the two. \<open>factory\<close> is the
  client factory of a provider, \<open>attempts\<close> the providers a first-success walk tries,
  \<open>firstBound\<close> the provider it binds.
\<close>

definition factory :: "mcp \<Rightarrow> provider \<Rightarrow> string + client" where
  "factory c p =
     (case p of
        Anthropic \<Rightarrow> getAnthropicClientForMCP c
      | Google \<Rightarrow> getGoogleClientForMCP c
      | Perplexity \<Rightarrow> getPerplexityClientForMCP c)"

fun attempts :: "mcp \<Rightarrow> provider list \<Rightarrow> provider list" where
  "attempts c [] = []"
| "attempts c (p # ps) = p # (if isl (factory c p) then attempts c ps else [])"

fun firstBound :: "mcp \<Rightarrow> provider list \<Rightarrow> (provider \<times> client) option" where
  "firstBound c [] = None"
| "firstBound c (p # ps) =
     (case factory c p of Inr cl \<Rightarrow> Some (p, cl) | Inl e \<Rightarrow> firstBound c ps)"

definition typeTag :: "provider \<Rightarrow> string" where
  "typeTag p =
     (case p of Anthropic \<Rightarrow> ''claude'' | Google \<Rightarrow> ''google'' | Perplexity \<Rightarrow> ''perplexity'')"

text \<open>
  \<open>binds b r\<close>: the resolver's outcome \<open>r\<close> is the binding \<open>b\<close>: a failure when
  nothing was bound, otherwise a handle with that provider's tag and that client.
\<close>

definition binds :: "(provider \<times> client) option \<Rightarrow> string + handle \<Rightarrow> bool" where
  "binds b r =
     (case b of
        None \<Rightarrow> isl r
      | Some (p, cl) \<Rightarrow>
          (case r of Inl e \<Rightarrow> False | Inr h \<Rightarrow> type h = typeTag p \<and> client h = cl))"

text \<open>The primary family: Google when \<^verbatim>\<open>AI_PROVIDER\<close> says so, Anthropic otherwise.\<close>

definition primaryFamily :: "mcp \<Rightarrow> provider" where
  "primaryFamily c = (if primaryProvider c = ''GOOGLE'' then Google else Anthropic)"

definition primaryModel :: "mcp \<Rightarrow> string" where
  "primaryModel c =
     (if primaryProvider c = ''GOOGLE'' then geminiModel c
      else claudeModel c ''claude-3-7-sonnet-20250219'')"

text \<open>
  The overload tiers in the specification's order: (a) the alternate conversational
  provider, Google, when it is configured; (b) the research provider, Perplexity, when its
  key is present; (c) the overloaded Claude.
\<close>

definition overloadOrder :: "mcp \<Rightarrow> provider list" where
  "overloadOrder c =
     (if primaryProvider c = ''GOOGLE'' \<or> envVar c ''GOOGLE_API_KEY'' \<noteq> None then [Google] else [])
     @ (if envVar c ''PERPLEXITY_API_KEY'' \<noteq> None then [Perplexity] else [])
     @ [Anthropic]"

text \<open>
  The policy of the specification, as the list of tiers a request goes through. A research
  request starts with the research provider when its key is configured and with the
  primary family when it is not. Then come the overload tiers when the primary provider
  is overloaded, and otherwise the default tiers: the primary family, then the other
  known family. The policy says that a failure at a tier does not abort resolution and
  that the next tier is attempted before resolution fails.
\<close>

definition otherFamily :: "mcp \<Rightarrow> provider" where
  "otherFamily c = (if primaryFamily c = Google then Anthropic else Google)"

definition policyTiers :: "mcp \<Rightarrow> options \<Rightarrow> provider list" where
  "policyTiers c opts =
     (if requiresResearch opts
      then (if envVar c ''PERPLEXITY_API_KEY'' \<noteq> None then [Perplexity] else [primaryFamily c])
      else [])
     @ (if claudeOverloaded opts then [Google, Perplexity, Anthropic]
        else [primaryFamily c, otherFamily c])"

subsection \<open>The factories the code is prepared to call\<close>

text \<open>
  These two lists are not part of the specification. They restate the branch conditions
  of the code: \<open>calledOnDefault\<close> lists what lines 248 to 297 may call, with the code's
  literal tests of \<^verbatim>\<open>AI_PROVIDER\<close>, and \<open>calledTiers\<close> what the whole function may call.
  The proofs first show that the code is a first-success walk over \<open>calledTiers\<close> and
  then compare that list with the policy.
\<close>

definition calledOnDefault :: "mcp \<Rightarrow> provider list" where
  "calledOnDefault c =
     primaryFamily c #
     (if primaryProvider c = ''GOOGLE'' \<and> envVar c ''ANTHROPIC_API_KEY'' \<noteq> None then [Anthropic]
      else if primaryProvider c = ''ANTHROPIC'' \<and> envVar c ''GOOGLE_API_KEY'' \<noteq> None then [Google]
      else [])"

definition calledTiers :: "mcp \<Rightarrow> options \<Rightarrow> provider list" where
  "calledTiers c opts =
     (if requiresResearch opts \<and> envVar c ''PERPLEXITY_API_KEY'' = None then [primaryFamily c]
      else (if requiresResearch opts then [Perplexity] else [])
           @ (if claudeOverloaded opts then overloadOrder c else calledOnDefault c))"

subsection \<open>Expansion\<close>

text \<open>
  \<open>clearSubtasks n ts\<close>: the store's tasks with the subtask list of the first task of id
  \<open>n\<close> made empty. \<open>terminal\<close>: the two statuses that end a task.
  \<open>generationFails\<close>: the provider call throws, or the parser throws, returns
  \<^verbatim>\<open>null\<close> or returns no subtask, on the prompt built for the task \<open>t\<close>.
\<close>

fun clearSubtasks :: "int \<Rightarrow> task list \<Rightarrow> task list" where
  "clearSubtasks n [] = []"
| "clearSubtasks n (t # ts) =
     (if task_id t = n then t\<lparr>subtasks := Some []\<rparr> # ts else t # clearSubtasks n ts)"

definition terminal :: "task \<Rightarrow> bool" where
  "terminal t = (status t = ''done'' \<or> status t = ''completed'')"

definition generationFails :: "services \<Rightarrow> args \<Rightarrow> task \<Rightarrow> bool" where
  "generationFails sv a t =
     (case callAIProvider sv
             (fullPrompt t (subtaskCountOf (numSubtasksOf (num a))) (additionalContextOf (prompt a)))
             (research a = JBoolean True) of
        Inl m \<Rightarrow> True
      | Inr txt \<Rightarrow>
          (case parseSubtasksFromText sv txt (nextSubtaskIdOf t)
                  (subtaskCountOf (numSubtasksOf (num a))) (task_id t) of
             Inl m \<Rightarrow> True
           | Inr None \<Rightarrow> True
           | Inr (Some newSubs) \<Rightarrow> newSubs = []))"

definition errorCodes :: "string set" where
  "errorCodes =
     {''MISSING_ARGUMENT'', ''INPUT_VALIDATION_ERROR'', ''INVALID_TASKS_FILE'', ''TASK_NOT_FOUND'',
      ''TASK_COMPLETED'', ''CORE_FUNCTION_ERROR'', ''NO_PROVIDER_AVAILABLE''}"

text \<open>
  The two shapes of a success and the shape of a failure. \<open>expandedShape\<close> has the five
  keys of the specification; \<open>skippedShape\<close> is what the early return for a task that
  already has subtasks carries.
\<close>

definition expandedShape :: "expand_data \<Rightarrow> bool" where
  "expandedShape d =
     (case newSubtasks d of
        None \<Rightarrow> False
      | Some ns \<Rightarrow>
          (case totalSubtasks d of
             None \<Rightarrow> False
           | Some k \<Rightarrow> subtasksAdded d = length ns \<and> hasExistingSubtasks d = None))"

definition skippedShape :: "expand_data \<Rightarrow> bool" where
  "skippedShape d =
     (newSubtasks d = None \<and> totalSubtasks d = None \<and> hasExistingSubtasks d = Some True
      \<and> subtasksAdded d = 0)"

text \<open>
  \<open>targetTask\<close> is the task a call names: the first task with the parsed id in the store
  read from the path given. \<open>skipsExpansion\<close> says that this task already has subtasks and
  the call does not force: the condition of the specification's short-circuit.
  \<open>resultShape skipped r\<close> ties the shape of a success to that condition: the skipped
  shape when it holds, the five keys of a performed expansion when it does not.
\<close>

definition targetTask :: "args \<Rightarrow> world \<Rightarrow> task option" where
  "targetTask a w =
     (case truthy (tasksJsonPath a) of
        None \<Rightarrow> None
      | Some p \<Rightarrow>
          (case taskIdOf (id_arg a) of
             None \<Rightarrow> None
           | Some n \<Rightarrow>
               (case readJSON (files w) p of
                  None \<Rightarrow> None
                | Some d \<Rightarrow>
                    (case tasks d of
                       None \<Rightarrow> None
                     | Some ts \<Rightarrow> find (\<lambda>t. task_id t = n) ts))))"

definition skipsExpansion :: "args \<Rightarrow> world \<Rightarrow> bool" where
  "skipsExpansion a w =
     (case targetTask a w of
        None \<Rightarrow> False
      | Some t \<Rightarrow> hasExisting t \<and> force a \<noteq> JBoolean True)"

definition resultShape :: "bool \<Rightarrow> result \<Rightarrow> bool" where
  "resultShape skipped r =
     (case r of
        Success d \<Rightarrow> (if skipped then skippedShape d else expandedShape d)
      | Failure e \<Rightarrow> code e \<in> errorCodes \<and> 0 < length (error_message e))"

section \<open>Example inputs\<close>

text \<open>An environment with the given variables in \<^verbatim>\<open>process.env\<close> and no session.\<close>

definition processEnv :: "(string \<times> string) list \<Rightarrow> bool \<Rightarrow> mcp" where
  "processEnv kvs importable =
     \<lparr>session_env = None, process_env = map_of kvs, openai_importable = importable\<rparr>"

text \<open>
  A store with the single task 3, a call for it, and three stand-ins for the provider
  and the parser: one whose parser rejects the text, one whose provider call throws, and
  one that yields a single subtask.
\<close>

definition demoSubtask :: subtask where
  "demoSubtask =
     \<lparr>st_id = 1, st_title = ''Design routes'', st_description = ''List the endpoints'',
      dependencies = [], st_details = ''One route per resource''\<rparr>"

definition demoTask :: "string \<Rightarrow> subtask list option \<Rightarrow> task" where
  "demoTask st subs =
     \<lparr>task_id = 3, title = ''Build API'', description = ''Expose the endpoints'',
      details = None, status = st, subtasks = subs\<rparr>"

definition demoWorld :: "task \<Rightarrow> world" where
  "demoWorld t =
     \<lparr>files = [''tasks/tasks.json'' \<mapsto> Document \<lparr>tasks = Some [t]\<rparr>], aiCalls = []\<rparr>"

definition demoArgs :: "js_value \<Rightarrow> js_value \<Rightarrow> args" where
  "demoArgs n f =
     \<lparr>tasksJsonPath = Some ''tasks/tasks.json'', id_arg = JString ''3'', num = n,
      research = JUndefined, prompt = None, force = f\<rparr>"

definition rejectingParser :: services where
  "rejectingParser =
     \<lparr>callAIProvider = (\<lambda>p r. Inr ''I cannot help with that.''),
      parseSubtasksFromText = (\<lambda>txt nextId cnt parent. Inl ''Could not locate valid JSON array in the response''),
      backupPathOf = (\<lambda>p. ''tasks/tasks.json.bak'')\<rparr>"

definition failingProvider :: services where
  "failingProvider =
     \<lparr>callAIProvider = (\<lambda>p r. Inl ''overloaded''),
      parseSubtasksFromText = (\<lambda>txt nextId cnt parent. Inr None),
      backupPathOf = (\<lambda>p. ''tasks/tasks.json.bak'')\<rparr>"

definition oneSubtask :: services where
  "oneSubtask =
     \<lparr>callAIProvider = (\<lambda>p r. Inr ''[...]''),
      parseSubtasksFromText = (\<lambda>txt nextId cnt parent. Inr (Some [demoSubtask])),
      backupPathOf = (\<lambda>p. ''tasks/tasks.json.bak'')\<rparr>"

section \<open>Provider resolution: proofs\<close>

subsection \<open>Each branch of the resolver is a walk\<close>

lemma overloadLastResort_walk:
  "fst (overloadLastResort c tr) = tr @ attempts c [Anthropic] \<and>
   binds (firstBound c [Anthropic]) (snd (overloadLastResort c tr))"
  by (simp add: overloadLastResort_def binds_def typeTag_def claudeHandle_def factory_def
      split: sum.splits)

lemma overloadPerplexity_walk:
  "fst (overloadPerplexity c tr) =
     tr @ attempts c ((if envVar c ''PERPLEXITY_API_KEY'' \<noteq> None then [Perplexity] else []) @ [Anthropic]) \<and>
   binds (firstBound c ((if envVar c ''PERPLEXITY_API_KEY'' \<noteq> None then [Perplexity] else []) @ [Anthropic]))
     (snd (overloadPerplexity c tr))"
proof (cases "envVar c ''PERPLEXITY_API_KEY'' \<noteq> None")
  case False
  then show ?thesis
    using overloadLastResort_walk[of c tr] by (simp add: overloadPerplexity_def)
next
  case True
  show ?thesis
  proof (cases "getPerplexityClientForMCP c")
    case (Inl e)
    then show ?thesis
      using True overloadLastResort_walk[of c "tr @ [Perplexity]"]
      by (simp add: overloadPerplexity_def factory_def)
  next
    case (Inr cl)
    then show ?thesis
      using True by (simp add: overloadPerplexity_def factory_def binds_def typeTag_def)
  qed
qed

lemma overloadTier_walk:
  "fst (overloadTier c tr) = tr @ attempts c (overloadOrder c) \<and>
   binds (firstBound c (overloadOrder c)) (snd (overloadTier c tr))"
proof (cases "primaryProvider c = ''GOOGLE'' \<or> envVar c ''GOOGLE_API_KEY'' \<noteq> None")
  case False
  then show ?thesis
    using overloadPerplexity_walk[of c tr] by (simp add: overloadTier_def overloadOrder_def)
next
  case True
  show ?thesis
  proof (cases "getGoogleClientForMCP c")
    case (Inl e)
    then show ?thesis
      using True overloadPerplexity_walk[of c "tr @ [Google]"]
      by (simp add: overloadTier_def overloadOrder_def factory_def)
  next
    case (Inr cl)
    then show ?thesis
      using True
      by (simp add: overloadTier_def overloadOrder_def factory_def binds_def typeTag_def
          googleHandle_def)
  qed
qed

lemma defaultFallback_walk:
  "fst (defaultFallback c tr) = tr @ attempts c (tl (calledOnDefault c)) \<and>
   binds (firstBound c (tl (calledOnDefault c))) (snd (defaultFallback c tr))"
  by (simp add: defaultFallback_def calledOnDefault_def factory_def binds_def typeTag_def
      googleHandle_def claudeHandle_def split: sum.splits)

lemma defaultTier_walk:
  "fst (defaultTier c tr) = tr @ attempts c (calledOnDefault c) \<and>
   binds (firstBound c (calledOnDefault c)) (snd (defaultTier c tr))"
proof (cases "primaryProvider c = ''GOOGLE''")
  case True
  show ?thesis
  proof (cases "getGoogleClientForMCP c")
    case (Inl e)
    then show ?thesis
      using True defaultFallback_walk[of c "tr @ [Google]"]
      by (simp add: defaultTier_def calledOnDefault_def primaryFamily_def factory_def)
  next
    case (Inr cl)
    then show ?thesis
      using True
      by (simp add: defaultTier_def calledOnDefault_def primaryFamily_def factory_def binds_def
          typeTag_def googleHandle_def)
  qed
next
  case False
  show ?thesis
  proof (cases "getAnthropicClientForMCP c")
    case (Inl e)
    then show ?thesis
      using False defaultFallback_walk[of c "tr @ [Anthropic]"]
      by (simp add: defaultTier_def calledOnDefault_def primaryFamily_def factory_def)
  next
    case (Inr cl)
    then show ?thesis
      using False
      by (simp add: defaultTier_def calledOnDefault_def primaryFamily_def factory_def binds_def
          typeTag_def claudeHandle_def)
  qed
qed

lemma afterResearch_walk:
  "fst (afterResearch c opts tr) =
     tr @ attempts c (if claudeOverloaded opts then overloadOrder c else calledOnDefault c) \<and>
   binds (firstBound c (if claudeOverloaded opts then overloadOrder c else calledOnDefault c))
     (snd (afterResearch c opts tr))"
  using overloadTier_walk[of c tr] defaultTier_walk[of c tr]
  by (simp add: afterResearch_def)

lemma researchFallback_walk:
  "fst (researchFallback c) = attempts c [primaryFamily c] \<and>
   binds (firstBound c [primaryFamily c]) (snd (researchFallback c))"
  by (simp add: researchFallback_def primaryFamily_def factory_def binds_def typeTag_def
      googleHandle_def claudeHandle_def split: sum.splits)

lemma getBest_walk:
  "fst (getBestAvailableAIModel c opts) = attempts c (calledTiers c opts) \<and>
   binds (firstBound c (calledTiers c opts)) (snd (getBestAvailableAIModel c opts))"
proof (cases "requiresResearch opts")
  case False
  then show ?thesis
    using afterResearch_walk[of c opts "[]"]
    by (simp add: getBestAvailableAIModel_def calledTiers_def)
next
  case research: True
  show ?thesis
  proof (cases "envVar c ''PERPLEXITY_API_KEY''")
    case None
    then show ?thesis
      using research researchFallback_walk[of c]
      by (simp add: getBestAvailableAIModel_def calledTiers_def)
  next
    case (Some k)
    show ?thesis
    proof (cases "getPerplexityClientForMCP c")
      case (Inl e)
      then show ?thesis
        using Some research afterResearch_walk[of c opts "[Perplexity]"]
        by (simp add: getBestAvailableAIModel_def calledTiers_def factory_def)
    next
      case (Inr cl)
      then show ?thesis
        using Some research
        by (simp add: getBestAvailableAIModel_def calledTiers_def factory_def binds_def typeTag_def)
    qed
  qed
qed

lemma firstBound_factory:
  "firstBound c ps = Some (p, cl) \<Longrightarrow> factory c p = Inr cl"
  by (induction ps) (auto split: sum.splits)

lemma firstBound_overloadOrder:
  "firstBound c (overloadOrder c) = firstBound c [Google, Perplexity, Anthropic]"
  by (cases "envVar c ''GOOGLE_API_KEY''"; cases "envVar c ''PERPLEXITY_API_KEY''")
     (simp_all add: overloadOrder_def factory_def getGoogleClientForMCP_def
        getPerplexityClientForMCP_def)

lemma overloadTier_modelName:
  "snd (overloadTier c tr) = Inr h \<Longrightarrow> modelName h \<noteq> None"
  by (auto simp add: overloadTier_def overloadPerplexity_def overloadLastResort_def
      googleHandle_def claudeHandle_def split: sum.splits if_splits)

lemma defaultTier_modelName:
  "snd (defaultTier c tr) = Inr h \<Longrightarrow> modelName h \<noteq> None"
  by (auto simp add: defaultTier_def defaultFallback_def
      googleHandle_def claudeHandle_def split: sum.splits if_splits)

lemma researchFallback_modelName:
  "snd (researchFallback c) = Inr h \<Longrightarrow> modelName h \<noteq> None"
  by (auto simp add: researchFallback_def googleHandle_def claudeHandle_def
      split: sum.splits if_splits)

lemma afterResearch_modelName:
  "snd (afterResearch c opts tr) = Inr h \<Longrightarrow> modelName h \<noteq> None"
  using overloadTier_modelName[of c tr h] defaultTier_modelName[of c tr h]
  by (simp add: afterResearch_def split: if_splits)

lemma firstBound_None_iff:
  "firstBound c ps = None \<longleftrightarrow> (\<forall>p\<in>set ps. isl (factory c p))"
  by (induction ps) (auto split: sum.splits)

lemma binds_isl: "binds b r \<Longrightarrow> isl r \<longleftrightarrow> b = None"
  by (cases b; cases r) (auto simp add: binds_def)

text \<open>The definitions that evaluate the resolver on a concrete environment.\<close>

lemmas eval_defs = processEnv_def envVar_def truthy_def primaryProvider_def toUpperCase_def
  toUpperCase_char_def getAnthropicClientForMCP_def getGoogleClientForMCP_def
  getPerplexityClientForMCP_def factory_def primaryFamily_def primaryModel_def typeTag_def
  geminiModel_def claudeModel_def perplexityModel_def googleHandle_def claudeHandle_def

subsection \<open>Research requested without a Perplexity key\<close>

text \<open>
  Claim C4, as amended. When research is requested and no Perplexity key is configured, the
  resolver calls the factory of the primary family and nothing else. If that factory
  succeeds, which it does exactly when the primary family's API key is configured, the
  result is the primary family's handle: tag, client and model name. If it fails, the
  result is the failure \<^verbatim>\<open>No AI models available for research\<close>.
\<close>

theorem research_without_perplexity_binds_primary:
  assumes "requiresResearch opts" and "envVar c ''PERPLEXITY_API_KEY'' = None"
  shows "getBestAvailableAIModel c opts =
           ([primaryFamily c],
            case factory c (primaryFamily c) of
              Inr cl \<Rightarrow>
                Inr \<lparr>type = typeTag (primaryFamily c), client = cl,
                     modelName = Some (primaryModel c)\<rparr>
            | Inl e \<Rightarrow> Inl ''No AI models available for research'')"
  using assms
  by (simp add: getBestAvailableAIModel_def researchFallback_def primaryFamily_def
      primaryModel_def factory_def typeTag_def googleHandle_def claudeHandle_def
      split: sum.splits)

theorem research_without_perplexity_binds_primary_witness:
  "requiresResearch \<lparr>requiresResearch = True, claudeOverloaded = False\<rparr> \<and>
   envVar (processEnv [(''AI_PROVIDER'', ''google''), (''GOOGLE_API_KEY'', ''g-key'')] True)
     ''PERPLEXITY_API_KEY'' = None \<and>
   getBestAvailableAIModel
     (processEnv [(''AI_PROVIDER'', ''google''), (''GOOGLE_API_KEY'', ''g-key'')] True)
     \<lparr>requiresResearch = True, claudeOverloaded = False\<rparr> =
     ([Google],
      Inr \<lparr>type = ''google'', client = GoogleClient ''g-key'',
           modelName = Some ''gemini-2.5-pro-latest''\<rparr>)"
  using research_without_perplexity_binds_primary
    [of "\<lparr>requiresResearch = True, claudeOverloaded = False\<rparr>"
        "processEnv [(''AI_PROVIDER'', ''google''), (''GOOGLE_API_KEY'', ''g-key'')] True"]
  by (simp add: eval_defs)

text \<open>
  The claim without the condition on the primary key does not hold: with
  \<^verbatim>\<open>AI_PROVIDER=google\<close> and only an Anthropic key, the research request fails.
\<close>

theorem research_without_primary_key_fails:
  "getBestAvailableAIModel
     (processEnv [(''AI_PROVIDER'', ''google''), (''ANTHROPIC_API_KEY'', ''a-key'')] True)
     \<lparr>requiresResearch = True, claudeOverloaded = False\<rparr> =
     ([Google], Inl ''No AI models available for research'')"
  by (simp add: getBestAvailableAIModel_def researchFallback_def eval_defs)

subsection \<open>The code against the policy\<close>

lemma attempts_subseq: "subseq (attempts c xs) xs"
  by (induction xs) auto

lemma attempts_butlast_failed:
  "p \<in> set (butlast (attempts c xs)) \<Longrightarrow> isl (factory c p)"
  by (induction xs) (auto split: if_splits)

lemma firstBound_append:
  "firstBound c (xs @ ys) = (case firstBound c xs of Some b \<Rightarrow> Some b | None \<Rightarrow> firstBound c ys)"
  by (induction xs) (auto split: sum.splits)

lemma overloadOrder_policy: "subseq (overloadOrder c) [Google, Perplexity, Anthropic]"
  by (simp add: overloadOrder_def)

lemma calledOnDefault_policy:
  assumes "primaryProvider c = ''GOOGLE'' \<or> primaryProvider c = ''ANTHROPIC''"
  shows "subseq (calledOnDefault c) [primaryFamily c, otherFamily c] \<and>
         firstBound c (calledOnDefault c) = firstBound c [primaryFamily c, otherFamily c]"
  using assms
  by (cases "envVar c ''GOOGLE_API_KEY''"; cases "envVar c ''ANTHROPIC_API_KEY''")
     (auto simp add: calledOnDefault_def primaryFamily_def otherFamily_def factory_def
        getGoogleClientForMCP_def getAnthropicClientForMCP_def)

lemma firstBound_after:
  "firstBound c xs = firstBound c ys \<Longrightarrow> firstBound c (ps @ xs) = firstBound c (ps @ ys)"
  by (cases "firstBound c ps") (simp_all add: firstBound_append)

lemma subseq_after: "subseq xs ys \<Longrightarrow> subseq (ps @ xs) (ps @ ys)"
  by (simp add: subseq_append')

lemma calledTiers_policy:
  assumes r: "requiresResearch opts \<longrightarrow> envVar c ''PERPLEXITY_API_KEY'' \<noteq> None"
    and k: "claudeOverloaded opts \<or> primaryProvider c = ''GOOGLE'' \<or> primaryProvider c = ''ANTHROPIC''"
  shows "subseq (calledTiers c opts) (policyTiers c opts) \<and>
         firstBound c (calledTiers c opts) = firstBound c (policyTiers c opts)"
proof -
  let ?head = "if requiresResearch opts then [Perplexity] else []"
  let ?code = "if claudeOverloaded opts then overloadOrder c else calledOnDefault c"
  let ?policy = "if claudeOverloaded opts then [Google, Perplexity, Anthropic]
                 else [primaryFamily c, otherFamily c]"
  have called: "calledTiers c opts = ?head @ ?code"
    using r by (auto simp add: calledTiers_def)
  have policy: "policyTiers c opts = ?head @ ?policy"
    using r by (auto simp add: policyTiers_def)
  have tail: "subseq ?code ?policy \<and> firstBound c ?code = firstBound c ?policy"
  proof (cases "claudeOverloaded opts")
    case True
    then show ?thesis
      using overloadOrder_policy[of c] firstBound_overloadOrder[of c] by simp
  next
    case False
    with k have "primaryProvider c = ''GOOGLE'' \<or> primaryProvider c = ''ANTHROPIC''"
      by simp
    from calledOnDefault_policy[OF this] show ?thesis
      using False by simp
  qed
  show ?thesis
    unfolding called policy
    using tail subseq_after[of ?code ?policy ?head] firstBound_after[of c ?code ?policy ?head]
    by blast
qed

text \<open>
  Claim C5, as amended. Take a request that is not a research request without a Perplexity
  key, with the primary provider overloaded or \<^verbatim>\<open>AI_PROVIDER\<close> naming one of the two
  known families (or unset). Then the factories are called in the order of the policy's
  tiers, every call but the last has failed, the outcome is the binding of the first tier
  of the policy that can be bound, and resolution fails only when every tier of the policy
  fails: a failed tier is followed by the next. A research request without a Perplexity
  key is different: the factory of the primary family is the only one called, and when it
  fails resolution ends with \<^verbatim>\<open>No AI models available for research\<close>, although the
  policy has further tiers. Nothing is said here of the default path under an
  \<^verbatim>\<open>AI_PROVIDER\<close> that names neither known family.
\<close>

theorem failed_tier_is_followed_by_the_next:
  "((requiresResearch opts \<longrightarrow> envVar c ''PERPLEXITY_API_KEY'' \<noteq> None) \<and>
    (claudeOverloaded opts \<or> primaryProvider c = ''GOOGLE'' \<or> primaryProvider c = ''ANTHROPIC'')
    \<longrightarrow> subseq (fst (getBestAvailableAIModel c opts)) (policyTiers c opts) \<and>
        (\<forall>p\<in>set (butlast (fst (getBestAvailableAIModel c opts))). isl (factory c p)) \<and>
        binds (firstBound c (policyTiers c opts)) (snd (getBestAvailableAIModel c opts)) \<and>
        (isl (snd (getBestAvailableAIModel c opts)) \<longleftrightarrow>
           (\<forall>p\<in>set (policyTiers c opts). isl (factory c p)))) \<and>
   (requiresResearch opts \<and> envVar c ''PERPLEXITY_API_KEY'' = None
    \<longrightarrow> fst (getBestAvailableAIModel c opts) = [primaryFamily c] \<and>
        (isl (factory c (primaryFamily c))
         \<longrightarrow> snd (getBestAvailableAIModel c opts) = Inl ''No AI models available for research''))"
proof -
  have code: "fst (getBestAvailableAIModel c opts) = attempts c (calledTiers c opts) \<and>
     binds (firstBound c (calledTiers c opts)) (snd (getBestAvailableAIModel c opts))"
    by (rule getBest_walk)
  have walk: "subseq (fst (getBestAvailableAIModel c opts)) (policyTiers c opts) \<and>
        (\<forall>p\<in>set (butlast (fst (getBestAvailableAIModel c opts))). isl (factory c p)) \<and>
        binds (firstBound c (policyTiers c opts)) (snd (getBestAvailableAIModel c opts)) \<and>
        (isl (snd (getBestAvailableAIModel c opts)) \<longleftrightarrow>
           (\<forall>p\<in>set (policyTiers c opts). isl (factory c p)))"
    if r: "requiresResearch opts \<longrightarrow> envVar c ''PERPLEXITY_API_KEY'' \<noteq> None"
      and k: "claudeOverloaded opts \<or> primaryProvider c = ''GOOGLE'' \<or> primaryProvider c = ''ANTHROPIC''"
  proof -
    note pol = calledTiers_policy[OF r k]
    have order: "subseq (fst (getBestAvailableAIModel c opts)) (policyTiers c opts)"
      using code pol attempts_subseq[of c "calledTiers c opts"]
      by (metis subseq_order.order_trans)
    have failed: "\<forall>p\<in>set (butlast (fst (getBestAvailableAIModel c opts))). isl (factory c p)"
      using code attempts_butlast_failed by metis
    have b: "binds (firstBound c (policyTiers c opts)) (snd (getBestAvailableAIModel c opts))"
      using code pol by simp
    then have "isl (snd (getBestAvailableAIModel c opts)) \<longleftrightarrow>
           (\<forall>p\<in>set (policyTiers c opts). isl (factory c p))"
      using binds_isl firstBound_None_iff by blast
    with order failed b show ?thesis by blast
  qed
  have abort: "fst (getBestAvailableAIModel c opts) = [primaryFamily c] \<and>
        (isl (factory c (primaryFamily c))
         \<longrightarrow> snd (getBestAvailableAIModel c opts) = Inl ''No AI models available for research'')"
    if "requiresResearch opts \<and> envVar c ''PERPLEXITY_API_KEY'' = None"
    using that
    by (auto simp add: getBestAvailableAIModel_def researchFallback_def primaryFamily_def
        factory_def split: sum.splits)
  from walk abort show ?thesis by blast
qed


theorem failed_tier_is_followed_by_the_next_witness:
  "policyTiers
     (processEnv [(''PERPLEXITY_API_KEY'', ''p-key''), (''GOOGLE_API_KEY'', ''g-key'')] False)
     \<lparr>requiresResearch = True, claudeOverloaded = False\<rparr> = [Perplexity, Anthropic, Google] \<and>
   isl (factory
     (processEnv [(''PERPLEXITY_API_KEY'', ''p-key''), (''GOOGLE_API_KEY'', ''g-key'')] False)
     Perplexity) \<and>
   isl (factory
     (processEnv [(''PERPLEXITY_API_KEY'', ''p-key''), (''GOOGLE_API_KEY'', ''g-key'')] False)
     Anthropic) \<and>
   getBestAvailableAIModel
     (processEnv [(''PERPLEXITY_API_KEY'', ''p-key''), (''GOOGLE_API_KEY'', ''g-key'')] False)
     \<lparr>requiresResearch = True, claudeOverloaded = False\<rparr> =
     ([Perplexity, Anthropic, Google],
      Inr \<lparr>type = ''google'', client = GoogleClient ''g-key'',
           modelName = Some ''gemini-2.5-pro-latest''\<rparr>) \<and>
   binds (Some (Google, GoogleClient ''g-key''))
     (snd (getBestAvailableAIModel
        (processEnv [(''PERPLEXITY_API_KEY'', ''p-key''), (''GOOGLE_API_KEY'', ''g-key'')] False)
        \<lparr>requiresResearch = True, claudeOverloaded = False\<rparr>)) \<and>
   getBestAvailableAIModel (processEnv [(''GOOGLE_API_KEY'', ''g-key'')] True)
     \<lparr>requiresResearch = True, claudeOverloaded = False\<rparr> =
     ([Anthropic], Inl ''No AI models available for research'')"
  using failed_tier_is_followed_by_the_next
    [of "\<lparr>requiresResearch = True, claudeOverloaded = False\<rparr>"
        "processEnv [(''PERPLEXITY_API_KEY'', ''p-key''), (''GOOGLE_API_KEY'', ''g-key'')] False"]
    failed_tier_is_followed_by_the_next
    [of "\<lparr>requiresResearch = True, claudeOverloaded = False\<rparr>"
        "processEnv [(''GOOGLE_API_KEY'', ''g-key'')] True"]
  by (simp add: getBestAvailableAIModel_def researchFallback_def afterResearch_def
      defaultTier_def defaultFallback_def policyTiers_def otherFamily_def binds_def eval_defs)

text \<open>
  The default path under an unknown \<^verbatim>\<open>AI_PROVIDER\<close>, for the record: the code treats the
  primary as Anthropic (line 257) but tests for the literal name before it tries the
  other family (line 284), so with a Google key alone it fails after the one call.
\<close>

lemma unknown_primary_has_no_fallback:
  "getBestAvailableAIModel
     (processEnv [(''AI_PROVIDER'', ''openai''), (''GOOGLE_API_KEY'', ''g-key'')] True)
     \<lparr>requiresResearch = False, claudeOverloaded = False\<rparr> =
     ([Anthropic],
      Inl ''No primary AI models available. Please check your API keys and AI_PROVIDER setting.'')"
  by (simp add: getBestAvailableAIModel_def afterResearch_def defaultTier_def
      defaultFallback_def eval_defs)


text \<open>
  The claim as stated fails on the research branch. With only a Google key and the default primary
  family, a research request fails after the one call to the Anthropic factory, although
  the Google factory succeeds in this environment and the default path, on the same
  failure, goes on to bind Google.
\<close>

theorem research_fallback_aborts:
  "getBestAvailableAIModel (processEnv [(''GOOGLE_API_KEY'', ''g-key'')] True)
     \<lparr>requiresResearch = True, claudeOverloaded = False\<rparr> =
     ([Anthropic], Inl ''No AI models available for research'') \<and>
   getGoogleClientForMCP (processEnv [(''GOOGLE_API_KEY'', ''g-key'')] True) =
     Inr (GoogleClient ''g-key'') \<and>
   getBestAvailableAIModel (processEnv [(''GOOGLE_API_KEY'', ''g-key'')] True)
     \<lparr>requiresResearch = False, claudeOverloaded = False\<rparr> =
     ([Anthropic, Google],
      Inr \<lparr>type = ''google'', client = GoogleClient ''g-key'',
           modelName = Some ''gemini-2.5-pro-latest''\<rparr>)"
  by (simp add: getBestAvailableAIModel_def researchFallback_def afterResearch_def
      defaultTier_def defaultFallback_def eval_defs)

subsection \<open>The overload branch\<close>

text \<open>
  Claim C6. Without a research request and with the overload flag set, the factories are
  called in the order Google, Perplexity, Anthropic (a provider that is not configured is
  passed over), the handle returned is that of the first of the three that can be bound,
  and resolution fails only if all three fail. The overload flag of the code is
  \<^verbatim>\<open>claudeOverloaded\<close>: the alternate conversational provider is Google, the overloaded
  primary provider is Claude.
\<close>

theorem overload_fallback_order:
  assumes "\<not> requiresResearch opts" and "claudeOverloaded opts"
  shows "fst (getBestAvailableAIModel c opts) = attempts c (overloadOrder c) \<and>
         binds (firstBound c [Google, Perplexity, Anthropic]) (snd (getBestAvailableAIModel c opts)) \<and>
         (isl (snd (getBestAvailableAIModel c opts)) \<longleftrightarrow>
            isl (factory c Google) \<and> isl (factory c Perplexity) \<and> isl (factory c Anthropic))"
proof -
  have eq: "getBestAvailableAIModel c opts = overloadTier c []"
    using assms by (simp add: getBestAvailableAIModel_def afterResearch_def)
  have walk: "fst (overloadTier c []) = attempts c (overloadOrder c) \<and>
      binds (firstBound c [Google, Perplexity, Anthropic]) (snd (overloadTier c []))"
    using overloadTier_walk[of c "[]"] by (simp add: firstBound_overloadOrder)
  then have "isl (snd (overloadTier c [])) \<longleftrightarrow>
      (\<forall>p\<in>set [Google, Perplexity, Anthropic]. isl (factory c p))"
    using binds_isl firstBound_None_iff by blast
  with walk eq show ?thesis by simp
qed

theorem overload_fallback_order_witness:
  "\<not> requiresResearch \<lparr>requiresResearch = False, claudeOverloaded = True\<rparr> \<and>
   claudeOverloaded \<lparr>requiresResearch = False, claudeOverloaded = True\<rparr> \<and>
   fst (getBestAvailableAIModel
          (processEnv [(''AI_PROVIDER'', ''google''), (''PERPLEXITY_API_KEY'', ''p-key''),
                       (''ANTHROPIC_API_KEY'', ''a-key'')] False)
          \<lparr>requiresResearch = False, claudeOverloaded = True\<rparr>) = [Google, Perplexity, Anthropic] \<and>
   binds (Some (Anthropic, AnthropicClient ''a-key''))
     (snd (getBestAvailableAIModel
          (processEnv [(''AI_PROVIDER'', ''google''), (''PERPLEXITY_API_KEY'', ''p-key''),
                       (''ANTHROPIC_API_KEY'', ''a-key'')] False)
          \<lparr>requiresResearch = False, claudeOverloaded = True\<rparr>))"
  using overload_fallback_order
    [of "\<lparr>requiresResearch = False, claudeOverloaded = True\<rparr>"
        "processEnv [(''AI_PROVIDER'', ''google''), (''PERPLEXITY_API_KEY'', ''p-key''),
                     (''ANTHROPIC_API_KEY'', ''a-key'')] False"]
  by (simp add: overloadOrder_def eval_defs)

subsection \<open>The shape of the handle\<close>

text \<open>
  A research request that binds Perplexity returns a handle without a model name; the
  overload branch, binding the same provider, adds one.
\<close>

theorem research_handle_without_model_name:
  "getBestAvailableAIModel (processEnv [(''PERPLEXITY_API_KEY'', ''p-key'')] True)
     \<lparr>requiresResearch = True, claudeOverloaded = False\<rparr> =
     ([Perplexity],
      Inr \<lparr>type = ''perplexity'', client = PerplexityClient ''p-key'', modelName = None\<rparr>)"
  by (simp add: getBestAvailableAIModel_def eval_defs)

text \<open>
  Claim C9, as amended. Every handle returned carries a type tag and the client that the
  factory of the tagged provider built; the handle has no key for generation parameters.
  On every path other than the research request that binds Perplexity, the handle also
  carries a model name.
\<close>

theorem handle_has_tag_and_client:
  assumes "snd (getBestAvailableAIModel c opts) = Inr h"
  shows "(\<exists>p. type h = typeTag p \<and> factory c p = Inr (client h)) \<and>
         ((requiresResearch opts \<longrightarrow> isl (getPerplexityClientForMCP c)) \<longrightarrow> modelName h \<noteq> None)"
proof -
  have "binds (firstBound c (calledTiers c opts)) (Inr h)"
    using getBest_walk[of c opts] assms by simp
  then obtain p cl where b: "firstBound c (calledTiers c opts) = Some (p, cl)"
      and h: "type h = typeTag p" "client h = cl"
    by (auto simp add: binds_def split: option.splits)
  from b have "factory c p = Inr cl" by (rule firstBound_factory)
  with h have tag: "\<exists>p. type h = typeTag p \<and> factory c p = Inr (client h)" by auto
  have name: "modelName h \<noteq> None" if r: "requiresResearch opts \<longrightarrow> isl (getPerplexityClientForMCP c)"
  proof (cases "requiresResearch opts")
    case False
    then show ?thesis
      using assms afterResearch_modelName[of c opts "[]" h]
      by (simp add: getBestAvailableAIModel_def)
  next
    case True
    with r obtain e where e: "getPerplexityClientForMCP c = Inl e"
      by (cases "getPerplexityClientForMCP c") auto
    show ?thesis
    proof (cases "envVar c ''PERPLEXITY_API_KEY''")
      case None
      then show ?thesis
        using True assms researchFallback_modelName[of c h]
        by (simp add: getBestAvailableAIModel_def)
    next
      case (Some k)
      then show ?thesis
        using True e assms afterResearch_modelName[of c opts "[Perplexity]" h]
        by (simp add: getBestAvailableAIModel_def)
    qed
  qed
  from tag name show ?thesis by blast
qed

theorem handle_has_tag_and_client_witness:
  "snd (getBestAvailableAIModel (processEnv [(''ANTHROPIC_API_KEY'', ''a-key'')] True)
     \<lparr>requiresResearch = True, claudeOverloaded = False\<rparr>) =
     Inr \<lparr>type = ''claude'', client = AnthropicClient ''a-key'',
          modelName = Some ''claude-3-7-sonnet-20250219''\<rparr> \<and>
   isl (getPerplexityClientForMCP (processEnv [(''ANTHROPIC_API_KEY'', ''a-key'')] True)) \<and>
   modelName \<lparr>type = ''claude'', client = AnthropicClient ''a-key'',
          modelName = Some ''claude-3-7-sonnet-20250219''\<rparr> \<noteq> None"
  using handle_has_tag_and_client
    [of "processEnv [(''ANTHROPIC_API_KEY'', ''a-key'')] True"
        "\<lparr>requiresResearch = True, claudeOverloaded = False\<rparr>"
        "\<lparr>type = ''claude'', client = AnthropicClient ''a-key'',
          modelName = Some ''claude-3-7-sonnet-20250219''\<rparr>"]
  by (simp add: getBestAvailableAIModel_def researchFallback_def eval_defs)

section \<open>Task expansion: proofs\<close>

subsection \<open>Finding the task and reaching the provider call\<close>

lemma find_findIndex:
  "find P xs = Some x \<Longrightarrow> \<exists>i. findIndex P xs = Some i \<and> i < length xs \<and> xs ! i = x"
  by (induction xs) (auto split: if_splits)

lemma clearSubtasks_update:
  "findIndex (\<lambda>t. task_id t = n) ts = Some i \<Longrightarrow>
   ts[i := (ts ! i)\<lparr>subtasks := Some []\<rparr>] = clearSubtasks n ts"
  by (induction ts arbitrary: i) (auto split: if_splits)

lemma expand_reaches_generation:
  assumes path: "truthy (tasksJsonPath a) = Some p"
    and tid: "taskIdOf (id_arg a) = Some n"
    and rd: "readJSON (files w) p = Some d"
    and ts: "tasks d = Some ts"
    and fnd: "find (\<lambda>t. task_id t = n) ts = Some t"
    and nt: "\<not> terminal t"
    and go: "\<not> hasExisting t \<or> force a = JBoolean True"
  shows "expandTaskDirect sv a w =
           generatePhase sv a p n (backupPathOf sv p) (d\<lparr>tasks := Some (clearSubtasks n ts)\<rparr>)
             (clearSubtasks n ts) (t\<lparr>subtasks := Some []\<rparr>)
             (if hasExisting t then t\<lparr>subtasks := Some []\<rparr> else t)
             (w\<lparr>files := (files w)(backupPathOf sv p \<mapsto> Document d,
                                     p \<mapsto> Document (d\<lparr>tasks := Some (clearSubtasks n ts)\<rparr>))\<rparr>)"
proof -
  from fnd obtain i where i: "findIndex (\<lambda>t. task_id t = n) ts = Some i" "ts ! i = t"
    using find_findIndex by fastforce
  have stored: "files w p = Some (Document d)"
    using rd by (auto simp add: readJSON_def split: option.splits file_content.splits)
  have upd: "ts[i := t\<lparr>subtasks := Some []\<rparr>] = clearSubtasks n ts"
    using clearSubtasks_update[OF i(1)] i(2) by simp
  have t2: "(if subtasks (if hasExisting t then t\<lparr>subtasks := Some []\<rparr> else t) = None
             then (if hasExisting t then t\<lparr>subtasks := Some []\<rparr> else t)\<lparr>subtasks := Some []\<rparr>
             else (if hasExisting t then t\<lparr>subtasks := Some []\<rparr> else t))
            = t\<lparr>subtasks := Some []\<rparr>"
    by (cases "subtasks t") (auto simp add: hasExisting_def)
  have t1: "(if hasExisting t \<and> force a = JBoolean True then t\<lparr>subtasks := Some []\<rparr> else t)
            = (if hasExisting t then t\<lparr>subtasks := Some []\<rparr> else t)"
    using go by auto
  have prep: "preparePhase sv a p n d ts t w =
           generatePhase sv a p n (backupPathOf sv p) (d\<lparr>tasks := Some (clearSubtasks n ts)\<rparr>)
             (clearSubtasks n ts) (t\<lparr>subtasks := Some []\<rparr>)
             (if hasExisting t then t\<lparr>subtasks := Some []\<rparr> else t)
             (w\<lparr>files := (files w)(backupPathOf sv p \<mapsto> Document d,
                                     p \<mapsto> Document (d\<lparr>tasks := Some (clearSubtasks n ts)\<rparr>))\<rparr>)"
    unfolding preparePhase_def Let_def copyFileSync_def writeJSON_def
    by (simp only: stored option.case sum.case i(1) t1 t2 upd)
  have "expandLoaded sv a p n w = preparePhase sv a p n d ts t w"
    using rd ts fnd nt go by (auto simp add: expandLoaded_def terminal_def)
  then show ?thesis
    using path tid prep by (simp add: expandTaskDirect_def)
qed

lemma generation_failure:
  assumes "generationFails sv a t"
  shows "\<exists>m. generatePhase sv a p n bk d ts t orig w =
           (Failure \<lparr>code = ''CORE_FUNCTION_ERROR'', error_message = m\<rparr>,
            w\<lparr>aiCalls := aiCalls w @
                 [(fullPrompt t (subtaskCountOf (numSubtasksOf (num a))) (additionalContextOf (prompt a)),
                   research a = JBoolean True)]\<rparr>)"
  using assms
  by (auto simp add: generatePhase_def generationFails_def coreError_def Let_def
      split: sum.splits option.splits)

lemma clearSubtasks_same:
  "find (\<lambda>t. task_id t = n) ts = Some t \<Longrightarrow> clearSubtasks n ts = ts \<longleftrightarrow> subtasks t = Some []"
proof (induction ts)
  case Nil
  then show ?case by simp
next
  case (Cons x xs)
  show ?case
  proof (cases "task_id x = n")
    case True
    with Cons.prems have "x = t" by simp
    moreover have "t\<lparr>subtasks := Some []\<rparr> = t \<longleftrightarrow> subtasks t = Some []"
      by (metis task.select_convs(6) task.surjective task.update_convs(6))
    ultimately show ?thesis using True by simp
  next
    case False
    with Cons show ?thesis by simp
  qed
qed

lemma sublist_skip: "sublist xs ys \<Longrightarrow> sublist xs (ps @ ys)"
  by (metis append.assoc sublist_def)

lemma numberToString_3: "numberToString 3 = ''3''"
  by (simp add: numberToString_def safeInteger_def decimalDigits.simps digitChar_def)

lemma demo_taskId: "taskIdOf (JString ''3'') = Some 3"
  by (simp add: taskIdOf_def parseIntString_def toNumber_def safeInteger_def isSpace_def digitValue_def digitsValue_def)

lemma demo_find: "find (\<lambda>t. task_id t = 3) [demoTask st subs] = Some (demoTask st subs)"
  by (simp add: demoTask_def)

subsection \<open>Tasks that are done\<close>

text \<open>
  Claim C2. When the call names a task of the store whose status is \<^verbatim>\<open>done\<close> or
  \<^verbatim>\<open>completed\<close>, the result is the failure \<^verbatim>\<open>TASK_COMPLETED\<close> and the world is the
  one the call started in: no file is written, no backup is made, no prompt is sent.
  This holds whatever the other arguments, the provider and the parser are.
\<close>

theorem terminal_task_is_refused:
  assumes "truthy (tasksJsonPath a) = Some p"
    and "taskIdOf (id_arg a) = Some n"
    and "readJSON (files w) p = Some d"
    and "tasks d = Some ts"
    and "find (\<lambda>t. task_id t = n) ts = Some t"
    and "status t = ''done'' \<or> status t = ''completed''"
  shows "expandTaskDirect sv a w =
           (Failure \<lparr>code = ''TASK_COMPLETED'',
                     error_message = ''Task '' @ numberToString n @ '' is already marked as ''
                       @ status t @ '' and cannot be expanded''\<rparr>, w)"
  using assms by (auto simp add: expandTaskDirect_def expandLoaded_def failure_def)

theorem terminal_task_is_refused_witness:
  "truthy (tasksJsonPath (demoArgs (JNumber 4) (JBoolean True))) = Some ''tasks/tasks.json'' \<and>
   taskIdOf (id_arg (demoArgs (JNumber 4) (JBoolean True))) = Some 3 \<and>
   readJSON (files (demoWorld (demoTask ''completed'' None))) ''tasks/tasks.json'' =
     Some \<lparr>tasks = Some [demoTask ''completed'' None]\<rparr> \<and>
   find (\<lambda>t. task_id t = 3) [demoTask ''completed'' None] = Some (demoTask ''completed'' None) \<and>
   status (demoTask ''completed'' None) = ''completed'' \<and>
   expandTaskDirect oneSubtask (demoArgs (JNumber 4) (JBoolean True))
     (demoWorld (demoTask ''completed'' None)) =
     (Failure \<lparr>code = ''TASK_COMPLETED'',
               error_message = ''Task 3 is already marked as completed and cannot be expanded''\<rparr>,
      demoWorld (demoTask ''completed'' None))"
  using terminal_task_is_refused
    [where a = "demoArgs (JNumber 4) (JBoolean True)" and p = "''tasks/tasks.json''" and n = 3
       and w = "demoWorld (demoTask ''completed'' None)"
       and d = "\<lparr>tasks = Some [demoTask ''completed'' None]\<rparr>"
       and ts = "[demoTask ''completed'' None]" and t = "demoTask ''completed'' None"
       and sv = oneSubtask]
    demo_taskId demo_find numberToString_3
  by (simp add: demoArgs_def demoWorld_def truthy_def readJSON_def)
     (simp add: demoTask_def)

subsection \<open>Tasks that already have subtasks\<close>

text \<open>
  A task with a subtask and without the force flag is not always skipped with a success:
  when its status is \<^verbatim>\<open>done\<close>, the status check comes first and the call fails.
\<close>

theorem terminal_task_with_subtasks_is_not_skipped:
  "subtasks (demoTask ''done'' (Some [demoSubtask])) = Some [demoSubtask] \<and>
   force (demoArgs JUndefined (JBoolean False)) = JBoolean False \<and>
   expandTaskDirect oneSubtask (demoArgs JUndefined (JBoolean False))
     (demoWorld (demoTask ''done'' (Some [demoSubtask]))) =
     (Failure \<lparr>code = ''TASK_COMPLETED'',
               error_message = ''Task 3 is already marked as done and cannot be expanded''\<rparr>,
      demoWorld (demoTask ''done'' (Some [demoSubtask])))"
  using demo_taskId demo_find[of "''done''" "Some [demoSubtask]"] numberToString_3
  by (simp add: expandTaskDirect_def expandLoaded_def failure_def demoArgs_def demoWorld_def
      truthy_def readJSON_def)
     (simp add: demoTask_def)

text \<open>
  Claim C3, as amended. For a task of the store whose status is neither \<^verbatim>\<open>done\<close> nor
  \<^verbatim>\<open>completed\<close>, that has at least one subtask, and a call without \<^verbatim>\<open>force === true\<close>,
  the result is a success with \<^verbatim>\<open>subtasksAdded\<close> 0, the world is unchanged, and calling
  again gives the same result and the same world.
\<close>

theorem existing_subtasks_are_kept:
  assumes "truthy (tasksJsonPath a) = Some p"
    and "taskIdOf (id_arg a) = Some n"
    and "readJSON (files w) p = Some d"
    and "tasks d = Some ts"
    and "find (\<lambda>t. task_id t = n) ts = Some t"
    and "\<not> terminal t"
    and "subtasks t = Some (s # ss)"
    and "force a \<noteq> JBoolean True"
  shows "expandTaskDirect sv a w =
           (Success \<lparr>message = ''Task '' @ numberToString n
                         @ '' already has subtasks. Expansion skipped.'',
                     task = t, newSubtasks = None, subtasksAdded = 0, totalSubtasks = None,
                     hasExistingSubtasks = Some True\<rparr>, w) \<and>
         expandTaskDirect sv a (snd (expandTaskDirect sv a w)) = expandTaskDirect sv a w"
proof -
  have once: "expandTaskDirect sv a w =
           (Success \<lparr>message = ''Task '' @ numberToString n
                         @ '' already has subtasks. Expansion skipped.'',
                     task = t, newSubtasks = None, subtasksAdded = 0, totalSubtasks = None,
                     hasExistingSubtasks = Some True\<rparr>, w)"
    using assms
    by (auto simp add: expandTaskDirect_def expandLoaded_def terminal_def hasExisting_def)
  then show ?thesis by simp
qed

theorem existing_subtasks_are_kept_witness:
  "truthy (tasksJsonPath (demoArgs (JNumber 2) JUndefined)) = Some ''tasks/tasks.json'' \<and>
   taskIdOf (id_arg (demoArgs (JNumber 2) JUndefined)) = Some 3 \<and>
   readJSON (files (demoWorld (demoTask ''pending'' (Some [demoSubtask])))) ''tasks/tasks.json'' =
     Some \<lparr>tasks = Some [demoTask ''pending'' (Some [demoSubtask])]\<rparr> \<and>
   find (\<lambda>t. task_id t = 3) [demoTask ''pending'' (Some [demoSubtask])] =
     Some (demoTask ''pending'' (Some [demoSubtask])) \<and>
   \<not> terminal (demoTask ''pending'' (Some [demoSubtask])) \<and>
   subtasks (demoTask ''pending'' (Some [demoSubtask])) = Some [demoSubtask] \<and>
   force (demoArgs (JNumber 2) JUndefined) \<noteq> JBoolean True \<and>
   expandTaskDirect oneSubtask (demoArgs (JNumber 2) JUndefined)
     (demoWorld (demoTask ''pending'' (Some [demoSubtask]))) =
     (Success \<lparr>message = ''Task 3 already has subtasks. Expansion skipped.'',
               task = demoTask ''pending'' (Some [demoSubtask]), newSubtasks = None,
               subtasksAdded = 0, totalSubtasks = None, hasExistingSubtasks = Some True\<rparr>,
      demoWorld (demoTask ''pending'' (Some [demoSubtask])))"
  using existing_subtasks_are_kept
    [where a = "demoArgs (JNumber 2) JUndefined" and p = "''tasks/tasks.json''" and n = 3
       and w = "demoWorld (demoTask ''pending'' (Some [demoSubtask]))"
       and d = "\<lparr>tasks = Some [demoTask ''pending'' (Some [demoSubtask])]\<rparr>"
       and ts = "[demoTask ''pending'' (Some [demoSubtask])]"
       and t = "demoTask ''pending'' (Some [demoSubtask])"
       and s = demoSubtask and ss = "[]" and sv = oneSubtask]
    demo_taskId demo_find numberToString_3
  by (simp add: demoArgs_def demoWorld_def truthy_def readJSON_def terminal_def)
     (simp add: demoTask_def)

subsection \<open>A failed generation\<close>

lemma stored_document:
  "readJSON fs p = Some d \<Longrightarrow> fs p = Some (Document d)"
  by (auto simp add: readJSON_def split: option.splits file_content.splits)

lemma tasks_update_same: "tasks d = Some ts \<Longrightarrow> d\<lparr>tasks := Some ts'\<rparr> = d \<longleftrightarrow> ts' = ts"
  by (metis option.inject tasks_data.select_convs(1) tasks_data.surjective
      tasks_data.update_convs(1))

text \<open>
  Claim C1, as amended. Suppose the call reaches the preparing step and then the provider
  call throws, or the parser throws or returns nothing. The result is the failure
  \<^verbatim>\<open>CORE_FUNCTION_ERROR\<close>. The backup file is still there, and when its path differs
  from the store's it holds what the store file held before the call. The store file
  holds the store with the subtask list of the target task made empty, which was written
  before the provider was called; so the store file is as before the call exactly when
  the target task had a subtask list and it was empty.
\<close>

theorem failed_generation_leaves_cleared_store_and_backup:
  assumes path: "truthy (tasksJsonPath a) = Some p"
    and tid: "taskIdOf (id_arg a) = Some n"
    and rd: "readJSON (files w) p = Some d"
    and ts: "tasks d = Some ts"
    and fnd: "find (\<lambda>t. task_id t = n) ts = Some t"
    and nt: "\<not> terminal t"
    and go: "\<not> hasExisting t \<or> force a = JBoolean True"
    and gf: "generationFails sv a (t\<lparr>subtasks := Some []\<rparr>)"
  shows "(case fst (expandTaskDirect sv a w) of
            Failure e \<Rightarrow> code e = ''CORE_FUNCTION_ERROR''
          | Success x \<Rightarrow> False) \<and>
         files (snd (expandTaskDirect sv a w)) p =
           Some (Document (d\<lparr>tasks := Some (clearSubtasks n ts)\<rparr>)) \<and>
         files (snd (expandTaskDirect sv a w)) (backupPathOf sv p) \<noteq> None \<and>
         (backupPathOf sv p \<noteq> p \<longrightarrow>
            files (snd (expandTaskDirect sv a w)) (backupPathOf sv p) = files w p) \<and>
         (files (snd (expandTaskDirect sv a w)) p = files w p \<longleftrightarrow> subtasks t = Some [])"
proof -
  let ?w2 = "w\<lparr>files := (files w)(backupPathOf sv p \<mapsto> Document d,
                                   p \<mapsto> Document (d\<lparr>tasks := Some (clearSubtasks n ts)\<rparr>))\<rparr>"
  have reach: "expandTaskDirect sv a w =
      generatePhase sv a p n (backupPathOf sv p) (d\<lparr>tasks := Some (clearSubtasks n ts)\<rparr>)
        (clearSubtasks n ts) (t\<lparr>subtasks := Some []\<rparr>)
        (if hasExisting t then t\<lparr>subtasks := Some []\<rparr> else t) ?w2"
    by (rule expand_reaches_generation[OF path tid rd ts fnd nt go])
  obtain m where res: "expandTaskDirect sv a w =
      (Failure \<lparr>code = ''CORE_FUNCTION_ERROR'', error_message = m\<rparr>,
       ?w2\<lparr>aiCalls := aiCalls ?w2 @
          [(fullPrompt (t\<lparr>subtasks := Some []\<rparr>) (subtaskCountOf (numSubtasksOf (num a)))
              (additionalContextOf (prompt a)), research a = JBoolean True)]\<rparr>)"
    using generation_failure[OF gf] reach by metis
  have stored: "files w p = Some (Document d)"
    using rd by (rule stored_document)
  have same: "d\<lparr>tasks := Some (clearSubtasks n ts)\<rparr> = d \<longleftrightarrow> subtasks t = Some []"
    using tasks_update_same[OF ts] clearSubtasks_same[OF fnd] by simp
  show ?thesis
    using stored same by (simp add: res)
qed

lemmas demo_defs = demoArgs_def demoWorld_def truthy_def readJSON_def terminal_def
  hasExisting_def

theorem failed_generation_leaves_cleared_store_and_backup_witness:
  "truthy (tasksJsonPath (demoArgs JUndefined (JBoolean True))) = Some ''tasks/tasks.json'' \<and>
   taskIdOf (id_arg (demoArgs JUndefined (JBoolean True))) = Some 3 \<and>
   readJSON (files (demoWorld (demoTask ''pending'' (Some [])))) ''tasks/tasks.json'' =
     Some \<lparr>tasks = Some [demoTask ''pending'' (Some [])]\<rparr> \<and>
   find (\<lambda>t. task_id t = 3) [demoTask ''pending'' (Some [])] = Some (demoTask ''pending'' (Some [])) \<and>
   \<not> terminal (demoTask ''pending'' (Some [])) \<and>
   \<not> hasExisting (demoTask ''pending'' (Some [])) \<and>
   generationFails failingProvider (demoArgs JUndefined (JBoolean True))
     ((demoTask ''pending'' (Some []))\<lparr>subtasks := Some []\<rparr>) \<and>
   backupPathOf failingProvider ''tasks/tasks.json'' \<noteq> ''tasks/tasks.json'' \<and>
   files (snd (expandTaskDirect failingProvider (demoArgs JUndefined (JBoolean True))
                 (demoWorld (demoTask ''pending'' (Some []))))) ''tasks/tasks.json.bak'' =
     Some (Document \<lparr>tasks = Some [demoTask ''pending'' (Some [])]\<rparr>) \<and>
   files (snd (expandTaskDirect failingProvider (demoArgs JUndefined (JBoolean True))
                 (demoWorld (demoTask ''pending'' (Some []))))) ''tasks/tasks.json'' =
     files (demoWorld (demoTask ''pending'' (Some []))) ''tasks/tasks.json''"
  using failed_generation_leaves_cleared_store_and_backup
    [where a = "demoArgs JUndefined (JBoolean True)" and p = "''tasks/tasks.json''" and n = 3
       and w = "demoWorld (demoTask ''pending'' (Some []))"
       and d = "\<lparr>tasks = Some [demoTask ''pending'' (Some [])]\<rparr>"
       and ts = "[demoTask ''pending'' (Some [])]"
       and t = "demoTask ''pending'' (Some [])"
       and sv = failingProvider]
    demo_taskId demo_find
  by (simp add: demo_defs generationFails_def failingProvider_def)
     (simp add: demoTask_def)

text \<open>
  The store file is not always unchanged: with the force flag and a task that has a
  subtask, a response that the parser rejects leaves the store file without that subtask.
  The backup file holds the earlier content.
\<close>

theorem failed_generation_after_force_changes_store:
  "fst (expandTaskDirect rejectingParser (demoArgs JUndefined (JBoolean True))
          (demoWorld (demoTask ''pending'' (Some [demoSubtask])))) =
     Failure \<lparr>code = ''CORE_FUNCTION_ERROR'',
              error_message = ''Could not locate valid JSON array in the response''\<rparr> \<and>
   files (demoWorld (demoTask ''pending'' (Some [demoSubtask]))) ''tasks/tasks.json'' =
     Some (Document \<lparr>tasks = Some [demoTask ''pending'' (Some [demoSubtask])]\<rparr>) \<and>
   files (snd (expandTaskDirect rejectingParser (demoArgs JUndefined (JBoolean True))
                 (demoWorld (demoTask ''pending'' (Some [demoSubtask]))))) ''tasks/tasks.json'' =
     Some (Document \<lparr>tasks = Some [demoTask ''pending'' (Some [])]\<rparr>) \<and>
   files (snd (expandTaskDirect rejectingParser (demoArgs JUndefined (JBoolean True))
                 (demoWorld (demoTask ''pending'' (Some [demoSubtask]))))) ''tasks/tasks.json.bak'' =
     Some (Document \<lparr>tasks = Some [demoTask ''pending'' (Some [demoSubtask])]\<rparr>)"
  using demo_taskId demo_find[of "''pending''" "Some [demoSubtask]"]
  by (simp add: expandTaskDirect_def expandLoaded_def preparePhase_def generatePhase_def
      copyFileSync_def writeJSON_def coreError_def demo_defs rejectingParser_def Let_def)
     (simp add: demoTask_def)

subsection \<open>The shape of the result\<close>

lemma coreError_shape: "resultShape skipped (coreError m)"
  by (simp add: resultShape_def coreError_def errorCodes_def)

lemma failure_shape: "cd \<in> errorCodes \<Longrightarrow> msg \<noteq> [] \<Longrightarrow> resultShape skipped (failure cd msg)"
  by (simp add: resultShape_def failure_def)

lemma commitPhase_shape: "resultShape False (fst (commitPhase p n bk d ts orig news w))"
  by (simp add: commitPhase_def Let_def coreError_shape split: option.splits sum.splits)
     (simp add: resultShape_def expandedShape_def)

lemma generatePhase_shape: "resultShape False (fst (generatePhase sv a p n bk d ts t orig w))"
  by (simp add: generatePhase_def Let_def coreError_shape commitPhase_shape
      split: option.splits sum.splits)

lemma preparePhase_shape: "resultShape False (fst (preparePhase sv a p n d ts t w))"
  by (simp add: preparePhase_def Let_def coreError_shape generatePhase_shape
      split: option.splits sum.splits)

lemma expandLoaded_shape:
  "resultShape
     (case readJSON (files w) p of
        None \<Rightarrow> False
      | Some d \<Rightarrow>
          (case tasks d of
             None \<Rightarrow> False
           | Some ts \<Rightarrow>
               (case find (\<lambda>t. task_id t = n) ts of
                  None \<Rightarrow> False
                | Some t \<Rightarrow> hasExisting t \<and> force a \<noteq> JBoolean True)))
     (fst (expandLoaded sv a p n w))"
proof -
  have skipped: "resultShape True (Success \<lparr>message = m, task = t, newSubtasks = None,
      subtasksAdded = 0, totalSubtasks = None, hasExistingSubtasks = Some True\<rparr>)" for m t
    by (simp add: resultShape_def skippedShape_def)
  have performed: "resultShape (hasExisting t \<and> force a \<noteq> JBoolean True)
      (fst (preparePhase sv a p n d ts t w))"
    if "\<not> (hasExisting t \<and> force a \<noteq> JBoolean True)" for d ts t
  proof -
    from that have "(hasExisting t \<and> force a \<noteq> JBoolean True) = False" by blast
    then show ?thesis by (simp only: preparePhase_shape)
  qed
  show ?thesis
    by (auto simp add: expandLoaded_def skipped performed failure_shape errorCodes_def
        split: option.splits)
qed

text \<open>
  Claim C7, as amended. A success of a performed expansion has the keys \<^verbatim>\<open>message\<close>,
  \<^verbatim>\<open>task\<close>, \<^verbatim>\<open>newSubtasks\<close>, \<^verbatim>\<open>subtasksAdded\<close> and \<^verbatim>\<open>totalSubtasks\<close>; the success
  returned for a task that already has subtasks, in a call that does not force, has
  \<^verbatim>\<open>message\<close>, \<^verbatim>\<open>task\<close>, \<^verbatim>\<open>subtasksAdded\<close>, which is 0, and
  \<^verbatim>\<open>hasExistingSubtasks\<close>, which is true, and neither \<^verbatim>\<open>newSubtasks\<close> nor
  \<^verbatim>\<open>totalSubtasks\<close>. Which of the two a success is follows from the call and the store:
  it is the second exactly when the task named already has subtasks and the call does not
  force. Every failure has a code of the fixed set and a message that is not empty.
\<close>

theorem every_result_has_the_shape_of_its_path:
  "resultShape (skipsExpansion a w) (fst (expandTaskDirect sv a w))"
proof (cases "truthy (tasksJsonPath a)")
  case None
  then show ?thesis
    by (simp add: expandTaskDirect_def failure_shape errorCodes_def)
next
  case path: (Some p)
  show ?thesis
  proof (cases "taskIdOf (id_arg a)")
    case None
    then show ?thesis
      using path by (simp add: expandTaskDirect_def failure_shape errorCodes_def)
  next
    case (Some n)
    have "skipsExpansion a w =
        (case readJSON (files w) p of
           None \<Rightarrow> False
         | Some d \<Rightarrow>
             (case tasks d of
                None \<Rightarrow> False
              | Some ts \<Rightarrow>
                  (case find (\<lambda>t. task_id t = n) ts of
                     None \<Rightarrow> False
                   | Some t \<Rightarrow> hasExisting t \<and> force a \<noteq> JBoolean True)))"
      using path Some by (simp add: skipsExpansion_def targetTask_def split: option.splits)
    then show ?thesis
      using path Some expandLoaded_shape[where w = w and p = p and n = n and a = a and sv = sv]
      by (simp add: expandTaskDirect_def)
  qed
qed

text \<open>
  The success returned for a task that already has subtasks has neither
  \<^verbatim>\<open>newSubtasks\<close> nor \<^verbatim>\<open>totalSubtasks\<close>.
\<close>

theorem skipped_result_lacks_keys:
  "fst (expandTaskDirect oneSubtask (demoArgs JUndefined JUndefined)
          (demoWorld (demoTask ''pending'' (Some [demoSubtask])))) =
     Success \<lparr>message = ''Task 3 already has subtasks. Expansion skipped.'',
              task = demoTask ''pending'' (Some [demoSubtask]),
              newSubtasks = None, subtasksAdded = 0, totalSubtasks = None,
              hasExistingSubtasks = Some True\<rparr>"
  using demo_taskId demo_find[of "''pending''" "Some [demoSubtask]"] numberToString_3
  by (simp add: expandTaskDirect_def expandLoaded_def demo_defs)
     (simp add: demoTask_def)

lemma decimalDigits_1: "decimalDigits 1 = ''1''"
  by (simp add: decimalDigits.simps digitChar_def)

theorem every_result_has_the_shape_of_its_path_witness:
  "\<not> skipsExpansion (demoArgs JUndefined JUndefined) (demoWorld (demoTask ''pending'' None)) \<and>
   fst (expandTaskDirect oneSubtask (demoArgs JUndefined JUndefined)
          (demoWorld (demoTask ''pending'' None))) =
     Success \<lparr>message = ''Task 3 expanded successfully with 1 subtasks.'',
              task = demoTask ''pending'' None,
              newSubtasks = Some [demoSubtask], subtasksAdded = 1, totalSubtasks = Some 1,
              hasExistingSubtasks = None\<rparr> \<and>
   resultShape False (fst (expandTaskDirect oneSubtask (demoArgs JUndefined JUndefined)
          (demoWorld (demoTask ''pending'' None)))) \<and>
   skipsExpansion (demoArgs JUndefined JUndefined)
     (demoWorld (demoTask ''pending'' (Some [demoSubtask]))) \<and>
   resultShape True (fst (expandTaskDirect oneSubtask (demoArgs JUndefined JUndefined)
          (demoWorld (demoTask ''pending'' (Some [demoSubtask])))))"
proof -
  have performed: "\<not> skipsExpansion (demoArgs JUndefined JUndefined)
      (demoWorld (demoTask ''pending'' None))"
    using demo_taskId demo_find[of "''pending''" None]
    by (simp add: skipsExpansion_def targetTask_def demo_defs) (simp add: demoTask_def)
  have skipped: "skipsExpansion (demoArgs JUndefined JUndefined)
      (demoWorld (demoTask ''pending'' (Some [demoSubtask])))"
    using demo_taskId demo_find[of "''pending''" "Some [demoSubtask]"]
    by (simp add: skipsExpansion_def targetTask_def demo_defs) (simp add: demoTask_def)
  have result: "fst (expandTaskDirect oneSubtask (demoArgs JUndefined JUndefined)
          (demoWorld (demoTask ''pending'' None))) =
     Success \<lparr>message = ''Task 3 expanded successfully with 1 subtasks.'',
              task = demoTask ''pending'' None,
              newSubtasks = Some [demoSubtask], subtasksAdded = 1, totalSubtasks = Some 1,
              hasExistingSubtasks = None\<rparr>"
    using demo_taskId demo_find[of "''pending''" None] numberToString_3 decimalDigits_1
    by (simp add: expandTaskDirect_def expandLoaded_def preparePhase_def generatePhase_def
        commitPhase_def copyFileSync_def writeJSON_def unlinkSync_def demo_defs oneSubtask_def
        Let_def)
       (simp add: demoTask_def)
  from performed skipped result
    every_result_has_the_shape_of_its_path
      [of "demoArgs JUndefined JUndefined" "demoWorld (demoTask ''pending'' None)" oneSubtask]
    every_result_has_the_shape_of_its_path
      [of "demoArgs JUndefined JUndefined"
          "demoWorld (demoTask ''pending'' (Some [demoSubtask]))" oneSubtask]
  show ?thesis by simp
qed

subsection \<open>The prompt\<close>

lemma commitPhase_calls: "aiCalls (snd (commitPhase p n bk d ts orig news w)) = aiCalls w"
  by (simp add: commitPhase_def Let_def split: option.splits sum.splits)

lemma generatePhase_calls:
  "aiCalls (snd (generatePhase sv a p n bk d ts t orig w)) =
     aiCalls w @ [(fullPrompt t (subtaskCountOf (numSubtasksOf (num a)))
                     (additionalContextOf (prompt a)), research a = JBoolean True)]"
  by (simp add: generatePhase_def Let_def commitPhase_calls split: option.splits sum.splits)


lemma sublist_here: "sublist xs (xs @ ss)"
  by (rule sublist_append_rightI)

lemma sublist_in_head: "sublist xs ys \<Longrightarrow> sublist xs (ys @ ss)"
  by (metis append.assoc sublist_def)

lemma systemPrompt_phrases:
  "sublist (''Return exactly '' @ numberToString k @ '' subtasks'') (systemPrompt k i)"
  "sublist (''numerical IDs starting from '' @ numberToString i) (systemPrompt k i)"
  "sublist (quoted ''id'' @ '': '' @ numberToString i) (systemPrompt k i)"
  "sublist (quoted ''title'') (systemPrompt k i)"
  "sublist (quoted ''description'') (systemPrompt k i)"
  "sublist (quoted ''dependencies'') (systemPrompt k i)"
  "sublist (quoted ''details'') (systemPrompt k i)"
  unfolding systemPrompt_def
  by (rule sublist_here | rule sublist_skip)+

lemma prompt_phrases:
  "sublist (''Return exactly '' @ numberToString k @ '' subtasks'') (fullPrompt t k ctx)"
  "sublist (''numerical IDs starting from '' @ numberToString (nextSubtaskIdOf t)) (fullPrompt t k ctx)"
  "sublist (quoted ''id'' @ '': '' @ numberToString (nextSubtaskIdOf t)) (fullPrompt t k ctx)"
  "sublist (quoted ''title'') (fullPrompt t k ctx)"
  "sublist (quoted ''description'') (fullPrompt t k ctx)"
  "sublist (quoted ''dependencies'') (fullPrompt t k ctx)"
  "sublist (quoted ''details'') (fullPrompt t k ctx)"
  unfolding fullPrompt_def
  by (rule sublist_in_head, rule systemPrompt_phrases)+









subsection \<open>A subtask count that does not parse\<close>

lemma generatePhase_code:
  "case fst (generatePhase sv a p n bk d ts t orig w) of
     Failure e \<Rightarrow> code e \<noteq> ''INPUT_VALIDATION_ERROR''
   | Success x \<Rightarrow> True"
  by (simp add: generatePhase_def commitPhase_def coreError_def Let_def
      split: option.splits sum.splits)

lemma generatePhase_num:
  "subtaskCountOf (numSubtasksOf (num a')) = subtaskCountOf (numSubtasksOf (num a)) \<Longrightarrow>
   prompt a' = prompt a \<Longrightarrow> research a' = research a \<Longrightarrow>
   generatePhase sv a' p n bk d ts t orig w = generatePhase sv a p n bk d ts t orig w"
  by (simp add: generatePhase_def)

lemma unusable_num: "parseInt v = None \<or> parseInt v = Some 0 \<Longrightarrow> subtaskCountOf (numSubtasksOf v) = 5"
  by (auto simp add: subtaskCountOf_def numSubtasksOf_def)

text \<open>
  Claim C10. Let \<^verbatim>\<open>num\<close> be a value that \<^verbatim>\<open>parseInt\<close> maps to \<^verbatim>\<open>NaN\<close> or to 0, in a
  call that is otherwise fit to reach the provider. Then the count used is 5, the prompt
  sent is the one built with 5, the result is not \<^verbatim>\<open>INPUT_VALIDATION_ERROR\<close>, and result
  and world are those of the same call without \<^verbatim>\<open>num\<close>.
\<close>

theorem unusable_num_falls_back_to_five:
  assumes v: "parseInt v = None \<or> parseInt v = Some 0"
    and path: "truthy (tasksJsonPath a) = Some p"
    and tid: "taskIdOf (id_arg a) = Some n"
    and rd: "readJSON (files w) p = Some d"
    and ts: "tasks d = Some ts"
    and fnd: "find (\<lambda>t. task_id t = n) ts = Some t"
    and nt: "\<not> terminal t"
    and go: "\<not> hasExisting t \<or> force a = JBoolean True"
  shows "subtaskCountOf (numSubtasksOf v) = 5 \<and>
         aiCalls (snd (expandTaskDirect sv (a\<lparr>num := v\<rparr>) w)) =
           aiCalls w @
           [(fullPrompt (t\<lparr>subtasks := Some []\<rparr>) 5 (additionalContextOf (prompt a)),
             research a = JBoolean True)] \<and>
         (case fst (expandTaskDirect sv (a\<lparr>num := v\<rparr>) w) of
            Failure e \<Rightarrow> code e \<noteq> ''INPUT_VALIDATION_ERROR''
          | Success x \<Rightarrow> True) \<and>
         expandTaskDirect sv (a\<lparr>num := v\<rparr>) w = expandTaskDirect sv (a\<lparr>num := JUndefined\<rparr>) w"
proof -
  have five: "subtaskCountOf (numSubtasksOf v) = 5"
    using v by (rule unusable_num)
  have reach: "expandTaskDirect sv (a\<lparr>num := x\<rparr>) w =
      generatePhase sv (a\<lparr>num := x\<rparr>) p n (backupPathOf sv p)
        (d\<lparr>tasks := Some (clearSubtasks n ts)\<rparr>) (clearSubtasks n ts) (t\<lparr>subtasks := Some []\<rparr>)
        (if hasExisting t then t\<lparr>subtasks := Some []\<rparr> else t)
        (w\<lparr>files := (files w)(backupPathOf sv p \<mapsto> Document d,
                                p \<mapsto> Document (d\<lparr>tasks := Some (clearSubtasks n ts)\<rparr>))\<rparr>)" for x
    by (rule expand_reaches_generation[OF _ _ rd ts fnd nt]) (use path tid go in simp_all)
  have calls: "aiCalls (snd (expandTaskDirect sv (a\<lparr>num := v\<rparr>) w)) =
           aiCalls w @
           [(fullPrompt (t\<lparr>subtasks := Some []\<rparr>) 5 (additionalContextOf (prompt a)),
             research a = JBoolean True)]"
    by (simp add: reach generatePhase_calls five)
  have cd: "case fst (expandTaskDirect sv (a\<lparr>num := v\<rparr>) w) of
            Failure e \<Rightarrow> code e \<noteq> ''INPUT_VALIDATION_ERROR''
          | Success x \<Rightarrow> True"
    unfolding reach by (rule generatePhase_code)
  have same: "expandTaskDirect sv (a\<lparr>num := v\<rparr>) w = expandTaskDirect sv (a\<lparr>num := JUndefined\<rparr>) w"
    unfolding reach
    by (rule generatePhase_num) (simp_all add: five unusable_num)
  from five calls cd same show ?thesis by (intro conjI)
qed

lemma parseInt_abc: "parseInt (JString ''abc'') = None"
  by (simp add: parseIntString_def isSpace_def digitValue_def)

theorem unusable_num_falls_back_to_five_witness:
  "parseInt (JString ''abc'') = None \<and>
   aiCalls (snd (expandTaskDirect oneSubtask (demoArgs (JString ''abc'') JUndefined)
                   (demoWorld (demoTask ''pending'' None)))) =
     [(fullPrompt (demoTask ''pending'' (Some [])) 5 [], False)] \<and>
   sublist ''Return exactly 5 subtasks'' (fullPrompt (demoTask ''pending'' (Some [])) 5 [])"
proof -
  have five: "numberToString 5 = ''5''"
    by (simp add: numberToString_def safeInteger_def decimalDigits.simps digitChar_def)
  have phrase: "sublist ''Return exactly 5 subtasks'' (fullPrompt (demoTask ''pending'' (Some [])) 5 [])"
    using prompt_phrases(1)[of 5 "demoTask ''pending'' (Some [])" "[]"] five by simp
  have "aiCalls (snd (expandTaskDirect oneSubtask ((demoArgs JUndefined JUndefined)\<lparr>num := JString ''abc''\<rparr>)
                   (demoWorld (demoTask ''pending'' None)))) =
     aiCalls (demoWorld (demoTask ''pending'' None)) @
     [(fullPrompt ((demoTask ''pending'' None)\<lparr>subtasks := Some []\<rparr>) 5
         (additionalContextOf (prompt (demoArgs JUndefined JUndefined))),
       research (demoArgs JUndefined JUndefined) = JBoolean True)]"
    using unusable_num_falls_back_to_five
      [where v = "JString ''abc''" and a = "demoArgs JUndefined JUndefined"
         and p = "''tasks/tasks.json''" and n = 3
         and w = "demoWorld (demoTask ''pending'' None)"
         and d = "\<lparr>tasks = Some [demoTask ''pending'' None]\<rparr>"
         and ts = "[demoTask ''pending'' None]" and t = "demoTask ''pending'' None"
         and sv = oneSubtask, THEN conjunct2, THEN conjunct1]
      demo_taskId demo_find[of "''pending''" None] parseInt_abc
    by (simp add: demo_defs) (simp add: demoTask_def)
  then have "aiCalls (snd (expandTaskDirect oneSubtask (demoArgs (JString ''abc'') JUndefined)
                   (demoWorld (demoTask ''pending'' None)))) =
     [(fullPrompt (demoTask ''pending'' (Some [])) 5 [], False)]"
    by (simp add: demoArgs_def demoWorld_def demoTask_def additionalContextOf_def)
  with parseInt_abc phrase show ?thesis by (intro conjI)
qed

end
